theory Spec2Isabelle
  imports Complex_Main
begin

section \<open>AssetVerse server: the request handlers of index.js\<close>

text \<open>
  The server is a set of Express handlers over MongoDB collections. Each handler is
  embedded as a function from the store (the collections) and the request to the
  response and the store afterwards. A handler runs to completion before the next one
  starts: interleavings of concurrent handlers are not part of this model.

  Conventions of the embedding:
  \<^item> a collection is the list of its documents in insertion order; \<open>findOne\<close> is
    \<open>find\<close> (the first match), \<open>updateOne\<close> changes the first match only;
  \<^item> an \<open>ObjectId\<close> is a natural number; \<open>insertOne\<close> takes the fresh id from the
    counter \<open>nextId\<close> of the store;
  \<^item> a JavaScript number is an exact rational (no rounding; values beyond \<open>2^53\<close> are
    outside the model); an optional or nullable field is an \<open>option\<close>;
  \<^item> \<open>new Date()\<close> is the parameter \<open>now\<close> of the handler;
  \<^item> request bodies and query strings carry values of the type the handler expects
    (a string where it reads a string, a number where it computes with one);
  \<^item> \<open>sendError(res, statusCode, message, code)\<close> is \<open>Error statusCode code\<close>: the
    message is dropped.
\<close>

subsection \<open>JavaScript values\<close>

type_synonym oid = nat

text \<open>A textual id of a request: absent, not accepted by \<open>ObjectId.isValid\<close>, or an id.\<close>

datatype id_text = Missing | Invalid | Valid oid

definition truthy :: "string option \<Rightarrow> bool" where
  "truthy v = (case v of None \<Rightarrow> False | Some s \<Rightarrow> s \<noteq> [])"

text \<open>\<open>v || d\<close> on strings, and \<open>v || 0\<close> on numbers.\<close>

definition or_else :: "string option \<Rightarrow> string \<Rightarrow> string" where
  "or_else v d = (case v of None \<Rightarrow> d | Some s \<Rightarrow> if s = [] then d else s)"

definition or_zero :: "rat option \<Rightarrow> rat" where
  "or_zero v = (case v of None \<Rightarrow> 0 | Some n \<Rightarrow> n)"

text \<open>\<open>\s\<close> of a regular expression and the characters \<open>trim\<close> removes, within ASCII.\<close>

definition whitespace :: "char \<Rightarrow> bool" where
  "whitespace c = (c \<in> set [CHR '' '', CHR 0x09, CHR 0x0A, CHR 0x0B, CHR 0x0C, CHR 0x0D])"

definition sanitize :: "string \<Rightarrow> string" where
  "sanitize str = rev (dropWhile whitespace (rev (dropWhile whitespace str)))"

text \<open>\<open>[^\s@]\<close>\<close>

definition plain :: "char \<Rightarrow> bool" where
  "plain c = (\<not> whitespace c \<and> c \<noteq> CHR ''@'')"

text \<open>\<open>/^[^\s@]+@[^\s@]+\.[^\s@]+$/.test(email)\<close>\<close>

definition isValidEmail :: "string \<Rightarrow> bool" where
  "isValidEmail email =
     (takeWhile plain email \<noteq> [] \<and>
      (case dropWhile plain email of
         [] \<Rightarrow> False
       | c # host \<Rightarrow> c = CHR ''@'' \<and> list_all plain host \<and> CHR ''.'' \<in> set (butlast (tl host))))"

subsection \<open>Documents\<close>

record user =
  u_id :: oid
  u_name :: string
  u_email :: string
  u_password :: "string option"
  u_role :: string
  u_companyName :: "string option"
  u_companyLogo :: "string option"
  u_photoURL :: "string option"
  u_profileImage :: "string option"
  u_dob :: "string option"
  u_currentEmployees :: "rat option"
  u_packageLimit :: "rat option"
  u_joinDate :: nat
  u_isActive :: bool
  u_createdAt :: nat
  u_updatedAt :: nat

record asset =
  a_id :: oid
  a_productName :: string
  a_productImage :: string
  a_productType :: string
  a_productQuantity :: rat
  a_availableQuantity :: rat
  a_hrEmail :: string
  a_companyName :: string
  a_createdAt :: nat
  a_updatedAt :: nat

record request =
  r_id :: oid
  r_assetId :: oid
  r_assetName :: string
  r_assetImage :: string
  r_assetType :: string
  r_employeeEmail :: string
  r_employeeName :: string
  r_hrEmail :: string
  r_companyName :: string
  r_requestDate :: nat
  r_status :: string
  r_requestStatus :: string
  r_note :: string
  r_approvalDate :: "nat option"
  r_rejectionReason :: "string option"
  r_updatedAt :: nat

record assignment =
  g_id :: oid
  g_assetId :: oid
  g_productName :: string
  g_productImage :: string
  g_productType :: string
  g_employeeEmail :: string
  g_employeeName :: string
  g_companyName :: string
  g_requestDate :: "nat option"
  g_approvalDate :: "nat option"
  g_assignedDate :: nat
  g_returnDate :: "nat option"
  g_status :: string
  g_notes :: string
  g_createdAt :: nat
  g_updatedAt :: nat

record affiliation =
  f_id :: oid
  f_employeeEmail :: string
  f_employeeName :: string
  f_hrEmail :: string
  f_companyName :: string
  f_companyLogo :: "string option"
  f_affiliationDate :: nat
  f_status :: string
  f_createdAt :: nat
  f_updatedAt :: nat

record store =
  usersCollection :: "user list"
  assetsCollection :: "asset list"
  requestsCollection :: "request list"
  assetAssignmentsCollection :: "assignment list"
  affiliationsCollection :: "affiliation list"
  nextId :: oid

subsection \<open>Responses\<close>

datatype body =
    Null
  | User user
  | Users "user list"
  | Asset asset
  | Request request
  | Assignment assignment
  | DeletedCount nat
  | ReturnedAssets nat

datatype response = Error nat string | Json nat body

definition sendError :: "nat \<Rightarrow> string \<Rightarrow> response" where
  "sendError statusCode code = Error statusCode code"

fun statusCode :: "response \<Rightarrow> nat" where
  "statusCode (Error n c) = n"
| "statusCode (Json n b) = n"

subsection \<open>Collection operations\<close>

fun updateOne :: "('a \<Rightarrow> bool) \<Rightarrow> ('a \<Rightarrow> 'a) \<Rightarrow> 'a list \<Rightarrow> 'a list" where
  "updateOne p f [] = []"
| "updateOne p f (x # xs) = (if p x then f x # xs else x # updateOne p f xs)"

text \<open>
  \<open>affiliationsCollection.createIndex({ employeeEmail: 1, companyName: 1 }, { unique: true })\<close>:
  an insert whose pair is already stored throws, and the handler's \<open>catch\<close> answers 500.
\<close>

definition insertAffiliation :: "affiliation \<Rightarrow> affiliation list \<Rightarrow> affiliation list option" where
  "insertAffiliation doc coll =
     (if list_ex (\<lambda>f. f_employeeEmail f = f_employeeEmail doc \<and> f_companyName f = f_companyName doc) coll
      then None else Some (coll @ [doc]))"

text \<open>\<open>usersCollection.createIndex({ email: 1 }, { unique: true })\<close>\<close>

definition insertUser :: "user \<Rightarrow> user list \<Rightarrow> user list option" where
  "insertUser doc coll =
     (if list_ex (\<lambda>u. u_email u = u_email doc) coll then None else Some (coll @ [doc]))"

subsection \<open>Middleware\<close>

text \<open>
  The \<open>Authorization\<close> header as \<open>verifyToken\<close> sees it: no bearer token, a token that
  \<open>jwt.verify\<close> rejects, or a verified token with the \<open>email\<close> of its payload.
\<close>

datatype authorization = NoBearer | BadToken | Bearer "string option"

definition verifyToken ::
  "authorization \<Rightarrow> store \<Rightarrow> (string option \<Rightarrow> response \<times> store) \<Rightarrow> response \<times> store" where
  "verifyToken auth db next =
     (case auth of
        NoBearer \<Rightarrow> (sendError 401 ''UNAUTHORIZED'', db)
      | BadToken \<Rightarrow> (sendError 401 ''INVALID_TOKEN'', db)
      | Bearer email \<Rightarrow> next email)"

definition verifyHR :: "string option \<Rightarrow> store \<Rightarrow> response \<times> store \<Rightarrow> response \<times> store" where
  "verifyHR decoded db next =
     (case decoded of
        None \<Rightarrow> (sendError 401 ''UNAUTHORIZED'', db)
      | Some email \<Rightarrow>
          if email = [] then (sendError 401 ''UNAUTHORIZED'', db)
          else (case find (\<lambda>u. u_email u = email) (usersCollection db) of
                  None \<Rightarrow> (sendError 403 ''FORBIDDEN'', db)
                | Some u \<Rightarrow> if u_role u \<noteq> ''hr'' then (sendError 403 ''FORBIDDEN'', db) else next))"

subsection \<open>PATCH /requests/:requestId\<close>

text \<open>The affiliation filter of the handler: \<open>{ employeeEmail, companyName }\<close> of the request.\<close>

definition affiliationFilter :: "request \<Rightarrow> affiliation \<Rightarrow> bool" where
  "affiliationFilter request f =
     (f_employeeEmail f = r_employeeEmail request \<and> f_companyName f = r_companyName request)"

text \<open>
  Lines 904 to 949: the affiliation of the employee with the company. Without an active
  one, the package limit of the request's HR user is checked, an affiliation is inserted
  and \<open>currentEmployees\<close> is set to its successor; with one, only \<open>updatedAt\<close> changes.
\<close>

definition ensureAffiliation :: "store \<Rightarrow> nat \<Rightarrow> request \<Rightarrow> user \<Rightarrow> response + store" where
  "ensureAffiliation db now request hrUser =
     (case find (\<lambda>f. affiliationFilter request f \<and> f_status f = ''active'') (affiliationsCollection db) of
        None \<Rightarrow>
          (let packageLimit = or_zero (u_packageLimit hrUser);
               currentEmployees = or_zero (u_currentEmployees hrUser)
           in if packageLimit > 0 \<and> currentEmployees \<ge> packageLimit
              then Inl (sendError 403 ''PACKAGE_LIMIT'')
              else (case insertAffiliation
                      \<lparr> f_id = nextId db,
                        f_employeeEmail = r_employeeEmail request,
                        f_employeeName = sanitize (r_employeeName request),
                        f_hrEmail = r_hrEmail request,
                        f_companyName = sanitize (r_companyName request),
                        f_companyLogo = (if truthy (u_companyLogo hrUser) then u_companyLogo hrUser else None),
                        f_affiliationDate = now,
                        f_status = ''active'',
                        f_createdAt = now,
                        f_updatedAt = now \<rparr>
                      (affiliationsCollection db) of
                      None \<Rightarrow> Inl (sendError 500 ''SERVER_ERROR'')
                    | Some affs \<Rightarrow>
                        Inr (db\<lparr> affiliationsCollection := affs,
                                 usersCollection :=
                                   updateOne (\<lambda>u. u_email u = r_hrEmail request)
                                     (\<lambda>u. u\<lparr> u_currentEmployees := Some (currentEmployees + 1) \<rparr>)
                                     (usersCollection db),
                                 nextId := Suc (nextId db) \<rparr>)))
      | Some existingAffiliation \<Rightarrow>
          Inr (db\<lparr> affiliationsCollection :=
                     updateOne (affiliationFilter request) (\<lambda>f. f\<lparr> f_updatedAt := now \<rparr>)
                       (affiliationsCollection db) \<rparr>))"

text \<open>
  Lines 951 to 996: the assignment is inserted, the asset's \<open>availableQuantity\<close> is set
  to the value read before minus one, the request is marked approved and read back.
\<close>

definition recordApproval :: "store \<Rightarrow> nat \<Rightarrow> oid \<Rightarrow> request \<Rightarrow> asset \<Rightarrow> response \<times> store" where
  "recordApproval db now requestId request asset =
     (let assignment =
            \<lparr> g_id = nextId db,
              g_assetId = r_assetId request,
              g_productName = r_assetName request,
              g_productImage = r_assetImage request,
              g_productType = a_productType asset,
              g_employeeEmail = r_employeeEmail request,
              g_employeeName = r_employeeName request,
              g_companyName = r_companyName request,
              g_requestDate = Some (r_requestDate request),
              g_approvalDate = Some now,
              g_assignedDate = now,
              g_returnDate = None,
              g_status = ''assigned'',
              g_notes = [],
              g_createdAt = now,
              g_updatedAt = now \<rparr>;
          db' = db\<lparr> assetAssignmentsCollection := assetAssignmentsCollection db @ [assignment],
                     assetsCollection :=
                       updateOne (\<lambda>a. a_id a = r_assetId request)
                         (\<lambda>a. a\<lparr> a_availableQuantity := a_availableQuantity asset - 1, a_updatedAt := now \<rparr>)
                         (assetsCollection db),
                     requestsCollection :=
                       updateOne (\<lambda>r. r_id r = requestId)
                         (\<lambda>r. r\<lparr> r_status := ''approved'', r_approvalDate := Some now, r_updatedAt := now \<rparr>)
                         (requestsCollection db),
                     nextId := Suc (nextId db) \<rparr>
      in (case find (\<lambda>r. r_id r = requestId) (requestsCollection db') of
            None \<Rightarrow> (Json 200 Null, db')
          | Some updatedRequest \<Rightarrow> (Json 200 (Request updatedRequest), db')))"

text \<open>Lines 897 to 996: the branch \<open>status === 'approved'\<close>.\<close>

definition approveRequest :: "store \<Rightarrow> nat \<Rightarrow> oid \<Rightarrow> request \<Rightarrow> response \<times> store" where
  "approveRequest db now requestId request =
     (case find (\<lambda>a. a_id a = r_assetId request) (assetsCollection db) of
        None \<Rightarrow> (sendError 400 ''NO_AVAILABLE_QUANTITY'', db)
      | Some asset \<Rightarrow>
          if a_availableQuantity asset \<le> 0 then (sendError 400 ''NO_AVAILABLE_QUANTITY'', db)
          else (case find (\<lambda>u. u_email u = r_hrEmail request) (usersCollection db) of
                  None \<Rightarrow> (sendError 404 ''HR_NOT_FOUND'', db)
                | Some hrUser \<Rightarrow>
                    (case ensureAffiliation db now request hrUser of
                       Inl e \<Rightarrow> (e, db)
                     | Inr db1 \<Rightarrow> recordApproval db1 now requestId request asset)))"

text \<open>Lines 997 to 1012: the branch \<open>status === 'rejected'\<close>.\<close>

definition rejectRequest :: "store \<Rightarrow> nat \<Rightarrow> oid \<Rightarrow> string option \<Rightarrow> response \<times> store" where
  "rejectRequest db now requestId rejectionReason =
     (let db' = db\<lparr> requestsCollection :=
                       updateOne (\<lambda>r. r_id r = requestId)
                         (\<lambda>r. r\<lparr> r_status := ''rejected'',
                                  r_rejectionReason := Some (or_else rejectionReason []),
                                  r_updatedAt := now \<rparr>)
                         (requestsCollection db) \<rparr>
      in (case find (\<lambda>r. r_id r = requestId) (requestsCollection db') of
            None \<Rightarrow> (Json 200 Null, db')
          | Some updatedRequest \<Rightarrow> (Json 200 (Request updatedRequest), db')))"

text \<open>The handler proper (lines 876 to 1012), behind \<open>verifyToken\<close> and \<open>verifyHR\<close>.\<close>

definition updateRequestStatus ::
  "store \<Rightarrow> nat \<Rightarrow> id_text \<Rightarrow> string \<Rightarrow> string option \<Rightarrow> response \<times> store" where
  "updateRequestStatus db now requestId status rejectionReason =
     (case requestId of
        Valid rid \<Rightarrow>
          if status \<noteq> ''approved'' \<and> status \<noteq> ''rejected''
          then (sendError 400 ''INVALID_STATUS'', db)
          else (case find (\<lambda>r. r_id r = rid) (requestsCollection db) of
                  None \<Rightarrow> (sendError 404 ''REQUEST_NOT_FOUND'', db)
                | Some request \<Rightarrow>
                    if r_status request \<noteq> ''pending''
                    then (sendError 400 ''INVALID_STATE'', db)
                    else if status = ''approved'' then approveRequest db now rid request
                    else rejectRequest db now rid rejectionReason)
      | _ \<Rightarrow> (sendError 400 ''INVALID_ID'', db))"

definition patchRequest ::
  "store \<Rightarrow> nat \<Rightarrow> authorization \<Rightarrow> id_text \<Rightarrow> string \<Rightarrow> string option \<Rightarrow> response \<times> store" where
  "patchRequest db now auth requestId status rejectionReason =
     verifyToken auth db (\<lambda>decoded.
       verifyHR decoded db (updateRequestStatus db now requestId status rejectionReason))"

subsection \<open>User endpoints\<close>

definition text_of :: "string option \<Rightarrow> string" where
  "text_of v = (case v of None \<Rightarrow> [] | Some s \<Rightarrow> s)"

text \<open>\<open>a || b || null\<close>\<close>

definition first_truthy :: "string option \<Rightarrow> string option \<Rightarrow> string option" where
  "first_truthy a b = (if truthy a then a else if truthy b then b else None)"

text \<open>\<open>delete user.password\<close>\<close>

definition deletePassword :: "user \<Rightarrow> user" where
  "deletePassword u = u\<lparr> u_password := None \<rparr>"

text \<open>\<open>str.split(',')\<close>\<close>

fun split :: "char \<Rightarrow> string \<Rightarrow> string list" where
  "split sep [] = [[]]"
| "split sep (c # cs) =
     (if c = sep then [] # split sep cs
      else (case split sep cs of [] \<Rightarrow> [[c]] | w # ws \<Rightarrow> (c # w) # ws))"

text \<open>GET /user/:email (lines 316 to 337), no middleware.\<close>

definition getUser :: "store \<Rightarrow> string \<Rightarrow> response \<times> store" where
  "getUser db emailParam =
     (let email = sanitize emailParam in
      if \<not> isValidEmail email then (sendError 400 ''INVALID_EMAIL'', db)
      else (case find (\<lambda>u. u_email u = email) (usersCollection db) of
              None \<Rightarrow> (sendError 404 ''USER_NOT_FOUND'', db)
            | Some user \<Rightarrow> (Json 200 (User (deletePassword user)), db)))"

text \<open>GET /users-by-emails (lines 342 to 369), behind \<open>verifyToken\<close>.\<close>

definition getUsersByEmails :: "store \<Rightarrow> string option \<Rightarrow> response \<times> store" where
  "getUsersByEmails db emails =
     (if \<not> truthy emails then (sendError 400 ''MISSING_EMAILS'', db)
      else (let emailList = filter isValidEmail (map sanitize (split CHR '','' (text_of emails))) in
            if emailList = [] then (sendError 400 ''INVALID_EMAILS'', db)
            else (Json 200 (Users (map deletePassword
                     (filter (\<lambda>u. u_email u \<in> set emailList) (usersCollection db)))), db)))"

text \<open>POST /users (lines 374 to 428), no middleware.\<close>

record newUserBody =
  nu_name :: "string option"
  nu_email :: "string option"
  nu_password :: "string option"
  nu_role :: "string option"
  nu_companyName :: "string option"
  nu_profileImage :: "string option"
  nu_packageLimit :: "rat option"
  nu_photoURL :: "string option"
  nu_companyLogo :: "string option"

definition createUser :: "store \<Rightarrow> nat \<Rightarrow> newUserBody \<Rightarrow> response \<times> store" where
  "createUser db now b =
     (let name = text_of (nu_name b); email = text_of (nu_email b); role = text_of (nu_role b) in
      if \<not> truthy (nu_name b) \<or> \<not> truthy (nu_email b) \<or> \<not> truthy (nu_role b)
      then (sendError 400 ''MISSING_FIELDS'', db)
      else if \<not> isValidEmail email then (sendError 400 ''INVALID_EMAIL'', db)
      else if role \<noteq> ''hr'' \<and> role \<noteq> ''employee'' then (sendError 400 ''INVALID_ROLE'', db)
      else if role = ''hr'' \<and> \<not> truthy (nu_companyName b) then (sendError 400 ''MISSING_COMPANY'', db)
      else (case find (\<lambda>u. u_email u = email) (usersCollection db) of
              Some existingUser \<Rightarrow> (sendError 400 ''EMAIL_EXISTS'', db)
            | None \<Rightarrow>
                (let newUser =
                       \<lparr> u_id = nextId db,
                         u_name = sanitize name,
                         u_email = sanitize email,
                         u_password = Some (or_else (nu_password b) []),
                         u_role = role,
                         u_companyName =
                           (if role = ''hr'' then Some (sanitize (text_of (nu_companyName b))) else None),
                         u_companyLogo =
                           (if role = ''hr'' then first_truthy (nu_companyLogo b) (nu_profileImage b) else None),
                         u_photoURL =
                           (if role = ''employee'' then first_truthy (nu_photoURL b) (nu_profileImage b) else None),
                         u_profileImage = None,
                         u_dob = None,
                         u_currentEmployees = (if role = ''hr'' then Some 0 else None),
                         u_packageLimit =
                           (if role = ''hr'' then Some (or_zero (nu_packageLimit b)) else None),
                         u_joinDate = now,
                         u_isActive = True,
                         u_createdAt = now,
                         u_updatedAt = now \<rparr>
                 in (case insertUser newUser (usersCollection db) of
                       None \<Rightarrow> (sendError 500 ''SERVER_ERROR'', db)
                     | Some us \<Rightarrow>
                         (Json 201 (User (newUser\<lparr> u_password := None \<rparr>)),
                          db\<lparr> usersCollection := us, nextId := Suc (nextId db) \<rparr>)))))"

text \<open>PUT /users/:email (lines 433 to 483), behind \<open>verifyToken\<close>.\<close>

record userUpdateBody =
  uu_name :: "string option"
  uu_profileImage :: "string option"
  uu_currentEmployees :: "rat option"
  uu_photoURL :: "string option"
  uu_companyLogo :: "string option"
  uu_dob :: "string option"
  uu_companyName :: "string option"

text \<open>
  The update document \<open>{ $set: updateData, $unset: unsetData }\<close>. MongoDB refuses an update
  that names one path under both operators; the handler's \<open>catch\<close> then answers 500.
\<close>

definition conflictingUpdate :: "userUpdateBody \<Rightarrow> bool" where
  "conflictingUpdate b =
     ((truthy (uu_profileImage b) \<and> (truthy (uu_photoURL b) \<or> truthy (uu_companyLogo b))) \<or>
      (truthy (uu_photoURL b) \<and> truthy (uu_companyLogo b)))"

definition applyUserUpdate :: "nat \<Rightarrow> userUpdateBody \<Rightarrow> user \<Rightarrow> user" where
  "applyUserUpdate now b u =
     u\<lparr> u_updatedAt := now,
        u_name := (if truthy (uu_name b) then sanitize (text_of (uu_name b)) else u_name u),
        u_profileImage :=
          (if truthy (uu_profileImage b) then uu_profileImage b
           else if truthy (uu_photoURL b) \<or> truthy (uu_companyLogo b) then None
           else u_profileImage u),
        u_photoURL :=
          (if truthy (uu_photoURL b) then uu_photoURL b
           else if truthy (uu_companyLogo b) then None
           else u_photoURL u),
        u_companyLogo :=
          (if truthy (uu_companyLogo b) then uu_companyLogo b
           else if truthy (uu_photoURL b) then None
           else u_companyLogo u),
        u_dob := (if truthy (uu_dob b) then uu_dob b else u_dob u),
        u_companyName :=
          (if truthy (uu_companyName b) then Some (sanitize (text_of (uu_companyName b)))
           else u_companyName u),
        u_currentEmployees :=
          (case uu_currentEmployees b of None \<Rightarrow> u_currentEmployees u | Some n \<Rightarrow> Some n) \<rparr>"

definition updateUser ::
  "store \<Rightarrow> nat \<Rightarrow> string option \<Rightarrow> string \<Rightarrow> userUpdateBody \<Rightarrow> response \<times> store" where
  "updateUser db now decoded emailParam b =
     (let email = sanitize emailParam in
      if \<not> isValidEmail email then (sendError 400 ''INVALID_EMAIL'', db)
      else if decoded \<noteq> Some email then (sendError 403 ''FORBIDDEN'', db)
      else if conflictingUpdate b then (sendError 500 ''SERVER_ERROR'', db)
      else if \<not> list_ex (\<lambda>u. u_email u = email) (usersCollection db)
      then (sendError 404 ''USER_NOT_FOUND'', db)
      else (let db' = db\<lparr> usersCollection :=
                            updateOne (\<lambda>u. u_email u = email) (applyUserUpdate now b)
                              (usersCollection db) \<rparr>
            in (case find (\<lambda>u. u_email u = email) (usersCollection db') of
                  None \<Rightarrow> (sendError 500 ''SERVER_ERROR'', db')
                | Some updatedUser \<Rightarrow> (Json 200 (User (deletePassword updatedUser)), db'))))"

text \<open>GET /team-members (lines 1224 to 1243), no middleware.\<close>

definition getTeamMembers :: "store \<Rightarrow> string option \<Rightarrow> string option \<Rightarrow> response \<times> store" where
  "getTeamMembers db companyName role =
     (let teamMembers =
            filter (\<lambda>u. (if truthy companyName
                         then u_companyName u = Some (sanitize (text_of companyName)) else True) \<and>
                        (if truthy role then u_role u = text_of role else True))
              (usersCollection db)
      in (Json 200 (Users (map deletePassword teamMembers)), db))"

subsection \<open>Asset endpoints\<close>

fun deleteOne :: "('a \<Rightarrow> bool) \<Rightarrow> 'a list \<Rightarrow> 'a list" where
  "deleteOne p [] = []"
| "deleteOne p (x # xs) = (if p x then xs else x # deleteOne p xs)"

text \<open>POST /assets (lines 490 to 554), behind \<open>verifyToken\<close> and \<open>verifyHR\<close>.\<close>

record newAssetBody =
  na_productName :: "string option"
  na_productImage :: "string option"
  na_productType :: "string option"
  na_productQuantity :: "rat option"
  na_hrEmail :: "string option"
  na_companyName :: "string option"

definition createAsset :: "store \<Rightarrow> nat \<Rightarrow> string option \<Rightarrow> newAssetBody \<Rightarrow> response \<times> store" where
  "createAsset db now tokenEmail b =
     (let productType = text_of (na_productType b); quantity = or_zero (na_productQuantity b) in
      if \<not> truthy (na_productName b) \<or> \<not> truthy (na_productImage b) \<or>
         \<not> truthy (na_productType b) \<or> or_zero (na_productQuantity b) = 0
      then (sendError 400 ''MISSING_FIELDS'', db)
      else if productType \<noteq> ''Returnable'' \<and> productType \<noteq> ''Non-returnable''
      then (sendError 400 ''INVALID_TYPE'', db)
      else if quantity \<le> 0 then (sendError 400 ''INVALID_QUANTITY'', db)
      else if \<not> truthy tokenEmail \<or> \<not> isValidEmail (text_of tokenEmail)
      then (sendError 401 ''UNAUTHORIZED'', db)
      else if truthy (na_hrEmail b) \<and> na_hrEmail b \<noteq> tokenEmail
      then (sendError 403 ''FORBIDDEN'', db)
      else (case find (\<lambda>u. u_email u = text_of tokenEmail) (usersCollection db) of
              None \<Rightarrow> (sendError 404 ''HR_NOT_FOUND'', db)
            | Some hr \<Rightarrow>
                if u_role hr \<noteq> ''hr'' then (sendError 403 ''NOT_HR'', db)
                else (let resolvedCompanyName = first_truthy (u_companyName hr) (na_companyName b) in
                      if \<not> truthy resolvedCompanyName then (sendError 400 ''MISSING_COMPANY'', db)
                      else (let asset =
                                  \<lparr> a_id = nextId db,
                                    a_productName = sanitize (text_of (na_productName b)),
                                    a_productImage = text_of (na_productImage b),
                                    a_productType = productType,
                                    a_productQuantity = quantity,
                                    a_availableQuantity = quantity,
                                    a_hrEmail = text_of tokenEmail,
                                    a_companyName = sanitize (text_of resolvedCompanyName),
                                    a_createdAt = now,
                                    a_updatedAt = now \<rparr>
                            in (Json 201 (Asset asset),
                                db\<lparr> assetsCollection := assetsCollection db @ [asset],
                                    nextId := Suc (nextId db) \<rparr>)))))"

text \<open>PUT /assets/:assetId (lines 659 to 719), behind \<open>verifyToken\<close> and \<open>verifyHR\<close>.\<close>

record assetUpdateBody =
  au_productName :: "string option"
  au_productType :: "string option"
  au_productQuantity :: "rat option"

text \<open>\<open>countDocuments({ assetId, status: 'assigned' })\<close>\<close>

definition assignedCount :: "store \<Rightarrow> oid \<Rightarrow> nat" where
  "assignedCount db assetId =
     length (filter (\<lambda>g. g_assetId g = assetId \<and> g_status g = ''assigned'')
       (assetAssignmentsCollection db))"

definition renameAsset :: "nat \<Rightarrow> assetUpdateBody \<Rightarrow> asset \<Rightarrow> asset" where
  "renameAsset now b a =
     a\<lparr> a_updatedAt := now,
        a_productName :=
          (if truthy (au_productName b) then sanitize (text_of (au_productName b)) else a_productName a),
        a_productType :=
          (if truthy (au_productType b) then text_of (au_productType b) else a_productType a) \<rparr>"

definition writeAsset :: "store \<Rightarrow> oid \<Rightarrow> (asset \<Rightarrow> asset) \<Rightarrow> response \<times> store" where
  "writeAsset db aid change =
     (let db' = db\<lparr> assetsCollection := updateOne (\<lambda>a. a_id a = aid) change (assetsCollection db) \<rparr>
      in (case find (\<lambda>a. a_id a = aid) (assetsCollection db') of
            None \<Rightarrow> (Json 200 Null, db')
          | Some updatedAsset \<Rightarrow> (Json 200 (Asset updatedAsset), db')))"

definition updateAsset :: "store \<Rightarrow> nat \<Rightarrow> id_text \<Rightarrow> assetUpdateBody \<Rightarrow> response \<times> store" where
  "updateAsset db now assetId b =
     (case assetId of
        Valid aid \<Rightarrow>
          (case find (\<lambda>a. a_id a = aid) (assetsCollection db) of
             None \<Rightarrow> (sendError 404 ''ASSET_NOT_FOUND'', db)
           | Some asset \<Rightarrow>
               (let productQuantity = or_zero (au_productQuantity b) in
                if au_productQuantity b \<noteq> None \<and> productQuantity > 0
                then (if productQuantity < of_nat (assignedCount db aid)
                      then (sendError 400 ''INVALID_QUANTITY'', db)
                      else (let oldAvailable = a_availableQuantity asset;
                                quantityDifference = productQuantity - a_productQuantity asset;
                                newAvailable = oldAvailable + quantityDifference
                            in writeAsset db aid
                                 (\<lambda>a. (renameAsset now b a)
                                    \<lparr> a_productQuantity := productQuantity,
                                      a_availableQuantity := max 0 newAvailable \<rparr>)))
                else writeAsset db aid (renameAsset now b)))
      | _ \<Rightarrow> (sendError 400 ''INVALID_ID'', db))"

text \<open>DELETE /assets/:assetId (lines 724 to 753), behind \<open>verifyToken\<close> and \<open>verifyHR\<close>.\<close>

definition deleteAsset :: "store \<Rightarrow> id_text \<Rightarrow> response \<times> store" where
  "deleteAsset db assetId =
     (case assetId of
        Valid aid \<Rightarrow>
          (case find (\<lambda>a. a_id a = aid) (assetsCollection db) of
             None \<Rightarrow> (sendError 404 ''ASSET_NOT_FOUND'', db)
           | Some asset \<Rightarrow>
               if a_availableQuantity asset \<noteq> a_productQuantity asset
               then (sendError 400 ''ASSET_ASSIGNED'', db)
               else (Json 200 (DeletedCount 1),
                     db\<lparr> assetsCollection := deleteOne (\<lambda>a. a_id a = aid) (assetsCollection db) \<rparr>))
      | _ \<Rightarrow> (sendError 400 ''INVALID_ID'', db))"

subsection \<open>POST /requests\<close>

record newRequestBody =
  nr_assetId :: id_text
  nr_assetName :: "string option"
  nr_assetImage :: "string option"
  nr_assetType :: "string option"
  nr_employeeEmail :: "string option"
  nr_employeeName :: "string option"
  nr_hrEmail :: "string option"
  nr_companyName :: "string option"
  nr_note :: "string option"

text \<open>Lines 790 to 870, behind \<open>verifyToken\<close>.\<close>

definition createRequest :: "store \<Rightarrow> nat \<Rightarrow> string option \<Rightarrow> newRequestBody \<Rightarrow> response \<times> store" where
  "createRequest db now decoded b =
     (let employeeEmail = text_of (nr_employeeEmail b); hrEmail = text_of (nr_hrEmail b) in
      if nr_assetId b = Missing \<or> \<not> truthy (nr_employeeEmail b) \<or> \<not> truthy (nr_employeeName b) \<or>
         \<not> truthy (nr_hrEmail b) \<or> \<not> truthy (nr_companyName b)
      then (sendError 400 ''MISSING_FIELDS'', db)
      else (case nr_assetId b of
              Valid assetId \<Rightarrow>
                if decoded \<noteq> nr_employeeEmail b then (sendError 403 ''FORBIDDEN'', db)
                else if \<not> isValidEmail employeeEmail \<or> \<not> isValidEmail hrEmail
                then (sendError 400 ''INVALID_EMAIL'', db)
                else (case find (\<lambda>a. a_id a = assetId) (assetsCollection db) of
                        None \<Rightarrow> (sendError 404 ''ASSET_NOT_FOUND'', db)
                      | Some asset \<Rightarrow>
                          if a_availableQuantity asset \<le> 0
                          then (sendError 400 ''NO_AVAILABLE_QUANTITY'', db)
                          else (case find (\<lambda>r. r_assetId r = assetId \<and> r_employeeEmail r = employeeEmail \<and>
                                               r_status r = ''pending'') (requestsCollection db) of
                                  Some existingRequest \<Rightarrow> (sendError 400 ''DUPLICATE_REQUEST'', db)
                                | None \<Rightarrow>
                                    (let newRequest =
                                           \<lparr> r_id = nextId db,
                                             r_assetId = assetId,
                                             r_assetName = or_else (nr_assetName b) (a_productName asset),
                                             r_assetImage = or_else (nr_assetImage b) (a_productImage asset),
                                             r_assetType = or_else (nr_assetType b) (a_productType asset),
                                             r_employeeEmail = employeeEmail,
                                             r_employeeName = sanitize (text_of (nr_employeeName b)),
                                             r_hrEmail = hrEmail,
                                             r_companyName = sanitize (text_of (nr_companyName b)),
                                             r_requestDate = now,
                                             r_status = ''pending'',
                                             r_requestStatus = ''pending'',
                                             r_note = sanitize (or_else (nr_note b) []),
                                             r_approvalDate = None,
                                             r_rejectionReason = None,
                                             r_updatedAt = now \<rparr>
                                     in (Json 201 (Request newRequest),
                                         db\<lparr> requestsCollection := requestsCollection db @ [newRequest],
                                             nextId := Suc (nextId db) \<rparr>))))
            | _ \<Rightarrow> (sendError 400 ''INVALID_ID'', db)))"

subsection \<open>PATCH /assigned-assets/:assignmentId/return\<close>

text \<open>Lines 1046 to 1107, behind \<open>verifyToken\<close>.\<close>

definition returnAsset ::
  "store \<Rightarrow> nat \<Rightarrow> string option \<Rightarrow> id_text \<Rightarrow> string option \<Rightarrow> response \<times> store" where
  "returnAsset db now decoded assignmentId employeeEmail =
     (case assignmentId of
        Valid gid \<Rightarrow>
          if \<not> truthy employeeEmail then (sendError 400 ''MISSING_EMAIL'', db)
          else (case find (\<lambda>g. g_id g = gid) (assetAssignmentsCollection db) of
                  None \<Rightarrow> (sendError 404 ''ASSIGNMENT_NOT_FOUND'', db)
                | Some assignment \<Rightarrow>
                    if g_status assignment \<noteq> ''assigned''
                    then (sendError 400 ''INVALID_STATE'', db)
                    else if decoded \<noteq> employeeEmail \<or> Some (g_employeeEmail assignment) \<noteq> employeeEmail
                    then (sendError 403 ''FORBIDDEN'', db)
                    else (case find (\<lambda>a. a_id a = g_assetId assignment) (assetsCollection db) of
                            None \<Rightarrow> (sendError 404 ''ASSET_NOT_FOUND'', db)
                          | Some asset \<Rightarrow>
                              (let db' = db\<lparr> assetsCollection :=
                                                updateOne (\<lambda>a. a_id a = g_assetId assignment)
                                                  (\<lambda>a. a\<lparr> a_availableQuantity := a_availableQuantity asset + 1,
                                                           a_updatedAt := now \<rparr>)
                                                  (assetsCollection db),
                                              assetAssignmentsCollection :=
                                                updateOne (\<lambda>g. g_id g = gid)
                                                  (\<lambda>g. g\<lparr> g_status := ''returned'',
                                                           g_returnDate := Some now,
                                                           g_updatedAt := now \<rparr>)
                                                  (assetAssignmentsCollection db) \<rparr>
                               in (case find (\<lambda>g. g_id g = gid) (assetAssignmentsCollection db') of
                                     None \<Rightarrow> (Json 200 Null, db')
                                   | Some updatedAssignment \<Rightarrow>
                                       (Json 200 (Assignment updatedAssignment), db')))))
      | _ \<Rightarrow> (sendError 400 ''INVALID_ID'', db))"

subsection \<open>PATCH /affiliations/remove\<close>

text \<open>
  The loop of lines 1188 to 1198: every assignment read before the loop is marked
  returned, and the \<open>availableQuantity\<close> of its asset is incremented (\<open>$inc\<close>).
\<close>

fun returnAll :: "nat \<Rightarrow> assignment list \<Rightarrow> store \<Rightarrow> store" where
  "returnAll now [] db = db"
| "returnAll now (assignment # rest) db =
     returnAll now rest
       (db\<lparr> assetAssignmentsCollection :=
               updateOne (\<lambda>g. g_id g = g_id assignment)
                 (\<lambda>g. g\<lparr> g_status := ''returned'', g_returnDate := Some now, g_updatedAt := now \<rparr>)
                 (assetAssignmentsCollection db),
             assetsCollection :=
               updateOne (\<lambda>a. a_id a = g_assetId assignment)
                 (\<lambda>a. a\<lparr> a_availableQuantity := a_availableQuantity a + 1, a_updatedAt := now \<rparr>)
                 (assetsCollection db) \<rparr>)"

text \<open>Lines 1162 to 1219, behind \<open>verifyToken\<close> and \<open>verifyHR\<close>.\<close>

definition removeAffiliation ::
  "store \<Rightarrow> nat \<Rightarrow> string option \<Rightarrow> string option \<Rightarrow> response \<times> store" where
  "removeAffiliation db now employeeEmail companyName =
     (if \<not> truthy employeeEmail \<or> \<not> truthy companyName then (sendError 400 ''MISSING_FIELDS'', db)
      else (case find (\<lambda>f. f_employeeEmail f = sanitize (text_of employeeEmail) \<and>
                           f_companyName f = sanitize (text_of companyName) \<and>
                           f_status f = ''active'') (affiliationsCollection db) of
              None \<Rightarrow> (sendError 404 ''AFFILIATION_NOT_FOUND'', db)
            | Some affiliation \<Rightarrow>
                (let assignments =
                       filter (\<lambda>g. g_employeeEmail g = sanitize (text_of employeeEmail) \<and>
                                   g_companyName g = sanitize (text_of companyName) \<and>
                                   g_status g = ''assigned'') (assetAssignmentsCollection db);
                     db1 = returnAll now assignments db;
                     db2 = db1\<lparr> affiliationsCollection :=
                                 updateOne (\<lambda>f. f_id f = f_id affiliation)
                                   (\<lambda>f. f\<lparr> f_status := ''inactive'', f_updatedAt := now \<rparr>)
                                   (affiliationsCollection db1) \<rparr>;
                     db3 = (if f_hrEmail affiliation \<noteq> []
                            then (let currentEmployees =
                                        (case find (\<lambda>u. u_email u = f_hrEmail affiliation) (usersCollection db2) of
                                           None \<Rightarrow> 0
                                         | Some hrUser \<Rightarrow> or_zero (u_currentEmployees hrUser))
                                  in db2\<lparr> usersCollection :=
                                            updateOne (\<lambda>u. u_email u = f_hrEmail affiliation)
                                              (\<lambda>u. u\<lparr> u_currentEmployees := Some (max 0 (currentEmployees - 1)) \<rparr>)
                                              (usersCollection db2) \<rparr>)
                            else db2)
                 in (Json 200 (ReturnedAssets (length assignments)), db3))))"

subsection \<open>POST /assign-asset\<close>

record assignBody =
  aa_assetId :: id_text
  aa_productName :: "string option"
  aa_productImage :: "string option"
  aa_productType :: "string option"
  aa_employeeEmail :: "string option"
  aa_employeeName :: "string option"
  aa_companyName :: "string option"

text \<open>Lines 1248 to 1334, behind \<open>verifyToken\<close> and \<open>verifyHR\<close>.\<close>

definition assignAsset :: "store \<Rightarrow> nat \<Rightarrow> assignBody \<Rightarrow> response \<times> store" where
  "assignAsset db now b =
     (let employeeEmail = text_of (aa_employeeEmail b);
          companyName = sanitize (text_of (aa_companyName b)) in
      if aa_assetId b = Missing \<or> \<not> truthy (aa_employeeEmail b) \<or> \<not> truthy (aa_employeeName b) \<or>
         \<not> truthy (aa_companyName b)
      then (sendError 400 ''MISSING_FIELDS'', db)
      else (case aa_assetId b of
              Valid assetId \<Rightarrow>
                if \<not> isValidEmail employeeEmail then (sendError 400 ''INVALID_EMAIL'', db)
                else (case find (\<lambda>f. f_employeeEmail f = employeeEmail \<and> f_companyName f = companyName \<and>
                                     f_status f = ''active'') (affiliationsCollection db) of
                        None \<Rightarrow> (sendError 403 ''NOT_AFFILIATED'', db)
                      | Some affiliation \<Rightarrow>
                          (case find (\<lambda>a. a_id a = assetId) (assetsCollection db) of
                             None \<Rightarrow> (sendError 404 ''ASSET_NOT_FOUND'', db)
                           | Some asset \<Rightarrow>
                               if a_availableQuantity asset \<le> 0
                               then (sendError 400 ''NO_AVAILABLE_QUANTITY'', db)
                               else (case find (\<lambda>g. g_assetId g = assetId \<and> g_employeeEmail g = employeeEmail \<and>
                                                    g_status g = ''assigned'') (assetAssignmentsCollection db) of
                                       Some existingAssignment \<Rightarrow> (sendError 400 ''ALREADY_ASSIGNED'', db)
                                     | None \<Rightarrow>
                                         (let assignment =
                                                \<lparr> g_id = nextId db,
                                                  g_assetId = assetId,
                                                  g_productName = or_else (aa_productName b) (a_productName asset),
                                                  g_productImage = or_else (aa_productImage b) (a_productImage asset),
                                                  g_productType = or_else (aa_productType b) (a_productType asset),
                                                  g_employeeEmail = employeeEmail,
                                                  g_employeeName = sanitize (text_of (aa_employeeName b)),
                                                  g_companyName = companyName,
                                                  g_requestDate = None,
                                                  g_approvalDate = None,
                                                  g_assignedDate = now,
                                                  g_returnDate = None,
                                                  g_status = ''assigned'',
                                                  g_notes = [],
                                                  g_createdAt = now,
                                                  g_updatedAt = now \<rparr>
                                          in (Json 201 (Assignment assignment),
                                              db\<lparr> assetAssignmentsCollection :=
                                                    assetAssignmentsCollection db @ [assignment],
                                                  assetsCollection :=
                                                    updateOne (\<lambda>a. a_id a = assetId)
                                                      (\<lambda>a. a\<lparr> a_availableQuantity := a_availableQuantity asset - 1,
                                                               a_updatedAt := now \<rparr>)
                                                      (assetsCollection db),
                                                  nextId := Suc (nextId db) \<rparr>)))))
            | _ \<Rightarrow> (sendError 400 ''INVALID_ID'', db)))"

subsection \<open>The routes\<close>

text \<open>
  One constructor per route of the application that writes to a collection or answers
  with user documents, with the path, query and body parameters the handler reads.
\<close>

datatype call =
    PostUsers newUserBody
  | GetUser string
  | GetUsersByEmails "string option"
  | PutUsers string userUpdateBody
  | GetTeamMembers "string option" "string option"
  | PostAssets newAssetBody
  | PutAssets id_text assetUpdateBody
  | DeleteAssets id_text
  | PostRequests newRequestBody
  | PatchRequests id_text string "string option"
  | PatchReturn id_text "string option"
  | PatchAffiliationsRemove "string option" "string option"
  | PostAssignAsset assignBody

text \<open>
  The middleware chain of each route, as the \<open>app.get\<close>, \<open>app.post\<close>, \<open>app.put\<close>,
  \<open>app.patch\<close> and \<open>app.delete\<close> registrations give it.
\<close>

fun serve :: "store \<Rightarrow> nat \<Rightarrow> authorization \<Rightarrow> call \<Rightarrow> response \<times> store" where
  "serve db now auth (PostUsers b) = createUser db now b"
| "serve db now auth (GetUser email) = getUser db email"
| "serve db now auth (GetUsersByEmails emails) =
     verifyToken auth db (\<lambda>decoded. getUsersByEmails db emails)"
| "serve db now auth (PutUsers email b) =
     verifyToken auth db (\<lambda>decoded. updateUser db now decoded email b)"
| "serve db now auth (GetTeamMembers companyName role) = getTeamMembers db companyName role"
| "serve db now auth (PostAssets b) =
     verifyToken auth db (\<lambda>decoded. verifyHR decoded db (createAsset db now decoded b))"
| "serve db now auth (PutAssets assetId b) =
     verifyToken auth db (\<lambda>decoded. verifyHR decoded db (updateAsset db now assetId b))"
| "serve db now auth (DeleteAssets assetId) =
     verifyToken auth db (\<lambda>decoded. verifyHR decoded db (deleteAsset db assetId))"
| "serve db now auth (PostRequests b) =
     verifyToken auth db (\<lambda>decoded. createRequest db now decoded b)"
| "serve db now auth (PatchRequests requestId status rejectionReason) =
     patchRequest db now auth requestId status rejectionReason"
| "serve db now auth (PatchReturn assignmentId employeeEmail) =
     verifyToken auth db (\<lambda>decoded. returnAsset db now decoded assignmentId employeeEmail)"
| "serve db now auth (PatchAffiliationsRemove employeeEmail companyName) =
     verifyToken auth db (\<lambda>decoded.
       verifyHR decoded db (removeAffiliation db now employeeEmail companyName))"
| "serve db now auth (PostAssignAsset b) =
     verifyToken auth db (\<lambda>decoded. verifyHR decoded db (assignAsset db now b))"

text \<open>A sequence of calls, each with its time and \<open>Authorization\<close> header, served in order.\<close>

fun run :: "store \<Rightarrow> (nat \<times> authorization \<times> call) list \<Rightarrow> store" where
  "run db [] = db"
| "run db ((now, auth, c) # cs) = run (snd (serve db now auth c)) cs"

definition emptyStore :: store where
  "emptyStore =
     \<lparr> usersCollection = [], assetsCollection = [], requestsCollection = [],
       assetAssignmentsCollection = [], affiliationsCollection = [], nextId = 0 \<rparr>"

subsection \<open>Vocabulary of the properties\<close>

text \<open>The caller passes \<open>verifyToken\<close> and \<open>verifyHR\<close>: a verified token of a stored HR user.\<close>

definition authorizedHR :: "store \<Rightarrow> authorization \<Rightarrow> bool" where
  "authorizedHR db auth =
     (case auth of
        Bearer (Some email) \<Rightarrow>
          email \<noteq> [] \<and>
          (case find (\<lambda>u. u_email u = email) (usersCollection db) of
             None \<Rightarrow> False
           | Some u \<Rightarrow> u_role u = ''hr'')
      | _ \<Rightarrow> False)"

text \<open>The asset of a request is missing, or none of it is available.\<close>

definition unavailable :: "store \<Rightarrow> request \<Rightarrow> bool" where
  "unavailable db request =
     (case find (\<lambda>a. a_id a = r_assetId request) (assetsCollection db) of
        None \<Rightarrow> True
      | Some asset \<Rightarrow> a_availableQuantity asset \<le> 0)"

subsection \<open>A small company, for the examples\<close>

definition alice :: user where
  "alice =
     \<lparr> u_id = 1, u_name = ''Alice'', u_email = ''alice@acme.io'', u_password = Some ''a-secret'',
       u_role = ''hr'', u_companyName = Some ''Acme'', u_companyLogo = None, u_photoURL = None,
       u_profileImage = None, u_dob = None, u_currentEmployees = Some 0, u_packageLimit = Some 5,
       u_joinDate = 0, u_isActive = True, u_createdAt = 0, u_updatedAt = 0 \<rparr>"

definition carol :: user where
  "carol =
     \<lparr> u_id = 2, u_name = ''Carol'', u_email = ''carol@other.io'', u_password = Some ''c-secret'',
       u_role = ''hr'', u_companyName = Some ''Other'', u_companyLogo = None, u_photoURL = None,
       u_profileImage = None, u_dob = None, u_currentEmployees = Some 0, u_packageLimit = Some 5,
       u_joinDate = 0, u_isActive = True, u_createdAt = 0, u_updatedAt = 0 \<rparr>"

definition bob :: user where
  "bob =
     \<lparr> u_id = 3, u_name = ''Bob'', u_email = ''bob@mail.io'', u_password = Some ''b-secret'',
       u_role = ''employee'', u_companyName = None, u_companyLogo = None, u_photoURL = None,
       u_profileImage = None, u_dob = None, u_currentEmployees = None, u_packageLimit = None,
       u_joinDate = 0, u_isActive = True, u_createdAt = 0, u_updatedAt = 0 \<rparr>"

definition laptop :: asset where
  "laptop =
     \<lparr> a_id = 10, a_productName = ''Laptop'', a_productImage = ''laptop.png'',
       a_productType = ''Returnable'', a_productQuantity = 3, a_availableQuantity = 3,
       a_hrEmail = ''alice@acme.io'', a_companyName = ''Acme'', a_createdAt = 1, a_updatedAt = 1 \<rparr>"

definition laptopRequest :: request where
  "laptopRequest =
     \<lparr> r_id = 20, r_assetId = 10, r_assetName = ''Laptop'', r_assetImage = ''laptop.png'',
       r_assetType = ''Returnable'', r_employeeEmail = ''bob@mail.io'', r_employeeName = ''Bob'',
       r_hrEmail = ''alice@acme.io'', r_companyName = ''Acme'', r_requestDate = 2,
       r_status = ''pending'', r_requestStatus = ''pending'', r_note = [],
       r_approvalDate = None, r_rejectionReason = None, r_updatedAt = 2 \<rparr>"

definition office :: store where
  "office =
     \<lparr> usersCollection = [alice, carol, bob], assetsCollection = [laptop],
       requestsCollection = [laptopRequest], assetAssignmentsCollection = [],
       affiliationsCollection = [], nextId = 100 \<rparr>"

text \<open>The same company when every laptop is out.\<close>

definition officeNoLaptop :: store where
  "officeNoLaptop = office\<lparr> assetsCollection := [laptop\<lparr> a_availableQuantity := 0 \<rparr>] \<rparr>"

text \<open>The same company after the laptop request was approved.\<close>

definition officeDecided :: store where
  "officeDecided = office\<lparr> requestsCollection := [laptopRequest\<lparr> r_status := ''approved'' \<rparr>] \<rparr>"

text \<open>Bob holds one laptop, assigned or already returned.\<close>

definition bobsLaptop :: assignment where
  "bobsLaptop =
     \<lparr> g_id = 30, g_assetId = 10, g_productName = ''Laptop'', g_productImage = ''laptop.png'',
       g_productType = ''Returnable'', g_employeeEmail = ''bob@mail.io'', g_employeeName = ''Bob'',
       g_companyName = ''Acme'', g_requestDate = Some 2, g_approvalDate = Some 3,
       g_assignedDate = 3, g_returnDate = None, g_status = ''assigned'', g_notes = [],
       g_createdAt = 3, g_updatedAt = 3 \<rparr>"

definition bobAtAcme :: affiliation where
  "bobAtAcme =
     \<lparr> f_id = 40, f_employeeEmail = ''bob@mail.io'', f_employeeName = ''Bob'',
       f_hrEmail = ''alice@acme.io'', f_companyName = ''Acme'', f_companyLogo = None,
       f_affiliationDate = 3, f_status = ''active'', f_createdAt = 3, f_updatedAt = 3 \<rparr>"

definition officeAssigned :: store where
  "officeAssigned =
     office\<lparr> assetsCollection := [laptop\<lparr> a_availableQuantity := 2 \<rparr>],
             requestsCollection := [laptopRequest\<lparr> r_status := ''approved'' \<rparr>],
             assetAssignmentsCollection := [bobsLaptop],
             affiliationsCollection := [bobAtAcme] \<rparr>"

definition officeReturned :: store where
  "officeReturned =
     officeAssigned\<lparr> assetsCollection := [laptop],
                     assetAssignmentsCollection :=
                       [bobsLaptop\<lparr> g_status := ''returned'', g_returnDate := Some 4 \<rparr>] \<rparr>"

text \<open>Bob was removed from Acme (his affiliation is inactive) and asks for a laptop again.\<close>

definition officeRehire :: store where
  "officeRehire = office\<lparr> affiliationsCollection := [bobAtAcme\<lparr> f_status := ''inactive'' \<rparr>] \<rparr>"

text \<open>Alice's package is used up.\<close>

definition officeFull :: store where
  "officeFull =
     office\<lparr> usersCollection := [alice\<lparr> u_currentEmployees := Some 5 \<rparr>, carol, bob] \<rparr>"

text \<open>The caller of a return is not the employee of the assignment, or there is no assignment.\<close>

definition notAssignee :: "store \<Rightarrow> oid \<Rightarrow> string option \<Rightarrow> bool" where
  "notAssignee db gid decoded =
     (case find (\<lambda>g. g_id g = gid) (assetAssignmentsCollection db) of
        None \<Rightarrow> True
      | Some assignment \<Rightarrow> decoded \<noteq> Some (g_employeeEmail assignment))"

text \<open>The answer a caller who is not the assignee gets from the return route.\<close>

definition refusal :: "store \<Rightarrow> oid \<Rightarrow> string option \<Rightarrow> response" where
  "refusal db gid employeeEmail =
     (if \<not> truthy employeeEmail then Error 400 ''MISSING_EMAIL''
      else (case find (\<lambda>g. g_id g = gid) (assetAssignmentsCollection db) of
              None \<Rightarrow> Error 404 ''ASSIGNMENT_NOT_FOUND''
            | Some assignment \<Rightarrow>
                if g_status assignment \<noteq> ''assigned'' then Error 400 ''INVALID_STATE''
                else Error 403 ''FORBIDDEN''))"

text \<open>
  The package of an HR user is used up: \<open>packageLimit > 0 && currentEmployees >= packageLimit\<close>,
  both read with \<open>|| 0\<close>.
\<close>

definition limitReached :: "user \<Rightarrow> bool" where
  "limitReached hrUser =
     (or_zero (u_packageLimit hrUser) > 0 \<and>
      or_zero (u_currentEmployees hrUser) \<ge> or_zero (u_packageLimit hrUser))"

text \<open>The employee of a request has no active affiliation with the company of the request.\<close>

definition notAffiliated :: "store \<Rightarrow> request \<Rightarrow> bool" where
  "notAffiliated db request =
     (find (\<lambda>f. affiliationFilter request f \<and> f_status f = ''active'') (affiliationsCollection db) = None)"

text \<open>The query of GET /team-members: the filters given, if any, hold of a user.\<close>

definition teamQuery :: "string option \<Rightarrow> string option \<Rightarrow> user \<Rightarrow> bool" where
  "teamQuery companyName role u =
     ((truthy companyName \<longrightarrow> u_companyName u = Some (sanitize (text_of companyName))) \<and>
      (truthy role \<longrightarrow> u_role u = text_of role))"

text \<open>Two stores that differ at most in the passwords of their users.\<close>

definition samePublic :: "store \<Rightarrow> store \<Rightarrow> bool" where
  "samePublic db db' =
     (db\<lparr> usersCollection := map deletePassword (usersCollection db) \<rparr> =
      db'\<lparr> usersCollection := map deletePassword (usersCollection db') \<rparr>)"

text \<open>The routes that answer with user documents, and the user documents of an answer.\<close>

fun userRoute :: "call \<Rightarrow> bool" where
  "userRoute (PostUsers b) = True"
| "userRoute (GetUser email) = True"
| "userRoute (GetUsersByEmails emails) = True"
| "userRoute (PutUsers email b) = True"
| "userRoute (GetTeamMembers companyName role) = True"
| "userRoute c = False"

fun usersOf :: "response \<Rightarrow> user list" where
  "usersOf (Json n (User u)) = [u]"
| "usersOf (Json n (Users us)) = us"
| "usersOf r = []"

text \<open>The same company where every password is another one.\<close>

definition officeOtherPasswords :: store where
  "officeOtherPasswords =
     office\<lparr> usersCollection :=
               [alice\<lparr> u_password := Some ''x'' \<rparr>, carol\<lparr> u_password := None \<rparr>,
                bob\<lparr> u_password := Some ''y'' \<rparr>] \<rparr>"

text \<open>Two answers with their stores agree: the same response, stores that differ at most in
  passwords, and no password in the response.\<close>

definition agree :: "response \<times> store \<Rightarrow> response \<times> store \<Rightarrow> bool" where
  "agree x y =
     (fst x = fst y \<and> samePublic (snd x) (snd y) \<and>
      list_all (\<lambda>u. u_password u = None) (usersOf (fst x)))"

text \<open>The (asset, employee) pairs of the pending requests, one entry per request.\<close>

definition pendingKeys :: "store \<Rightarrow> (oid \<times> string) list" where
  "pendingKeys db =
     map (\<lambda>r. (r_assetId r, r_employeeEmail r))
       (filter (\<lambda>r. r_status r = ''pending'') (requestsCollection db))"

text \<open>The asset exists and some of it is available.\<close>

definition available :: "store \<Rightarrow> oid \<Rightarrow> bool" where
  "available db aid =
     (case find (\<lambda>a. a_id a = aid) (assetsCollection db) of
        None \<Rightarrow> False
      | Some asset \<Rightarrow> a_availableQuantity asset > 0)"

text \<open>
  A request for asset \<open>aid\<close> that passes every check of POST /requests before the
  duplicate guard: the fields are there, the caller is the employee, the emails are
  well formed, the asset is available.
\<close>

definition requestable :: "store \<Rightarrow> authorization \<Rightarrow> newRequestBody \<Rightarrow> oid \<Rightarrow> bool" where
  "requestable db auth b aid =
     (nr_assetId b = Valid aid \<and> truthy (nr_employeeEmail b) \<and> truthy (nr_employeeName b) \<and>
      truthy (nr_hrEmail b) \<and> truthy (nr_companyName b) \<and> auth = Bearer (nr_employeeEmail b) \<and>
      isValidEmail (text_of (nr_employeeEmail b)) \<and> isValidEmail (text_of (nr_hrEmail b)) \<and>
      available db aid)"

text \<open>Bob asks for a laptop: the body of his request.\<close>

definition bobAsks :: newRequestBody where
  "bobAsks =
     \<lparr> nr_assetId = Valid 10, nr_assetName = None, nr_assetImage = None, nr_assetType = None,
       nr_employeeEmail = Some ''bob@mail.io'', nr_employeeName = Some ''Bob'',
       nr_hrEmail = Some ''alice@acme.io'', nr_companyName = Some ''Acme'', nr_note = None \<rparr>"

text \<open>
  A history from the empty store: Alice signs up as HR of Acme, Bob as an employee,
  Alice adds an asset with \<open>productQuantity\<close> one half, Bob requests it, Alice approves.
\<close>

definition aliceSignsUp :: newUserBody where
  "aliceSignsUp =
     \<lparr> nu_name = Some ''Alice'', nu_email = Some ''alice@acme.io'', nu_password = Some ''a-secret'',
       nu_role = Some ''hr'', nu_companyName = Some ''Acme'', nu_profileImage = None,
       nu_packageLimit = Some 5, nu_photoURL = None, nu_companyLogo = None \<rparr>"

definition bobSignsUp :: newUserBody where
  "bobSignsUp =
     \<lparr> nu_name = Some ''Bob'', nu_email = Some ''bob@mail.io'', nu_password = Some ''b-secret'',
       nu_role = Some ''employee'', nu_companyName = None, nu_profileImage = None,
       nu_packageLimit = None, nu_photoURL = None, nu_companyLogo = None \<rparr>"

definition halfACable :: newAssetBody where
  "halfACable =
     \<lparr> na_productName = Some ''Cable'', na_productImage = Some ''cable.png'',
       na_productType = Some ''Non-returnable'', na_productQuantity = Some (1 / 2),
       na_hrEmail = None, na_companyName = None \<rparr>"

definition bobAsksForCable :: newRequestBody where
  "bobAsksForCable =
     \<lparr> nr_assetId = Valid 2, nr_assetName = None, nr_assetImage = None, nr_assetType = None,
       nr_employeeEmail = Some ''bob@mail.io'', nr_employeeName = Some ''Bob'',
       nr_hrEmail = Some ''alice@acme.io'', nr_companyName = Some ''Acme'', nr_note = None \<rparr>"

definition halfHistory :: "(nat \<times> authorization \<times> call) list" where
  "halfHistory =
     [(1, NoBearer, PostUsers aliceSignsUp),
      (2, NoBearer, PostUsers bobSignsUp),
      (3, Bearer (Some ''alice@acme.io''), PostAssets halfACable),
      (4, Bearer (Some ''bob@mail.io''), PostRequests bobAsksForCable),
      (5, Bearer (Some ''alice@acme.io''), PatchRequests (Valid 3) ''approved'' None)]"

text \<open>A number is whole.\<close>

definition whole :: "rat \<Rightarrow> bool" where
  "whole q = (of_int \<lfloor>q\<rfloor> = q)"

text \<open>
  The stock of an asset adds up: its total is whole, what is available is not negative,
  and what is available plus what is out on assignments is the total.
\<close>

definition inStock :: "store \<Rightarrow> asset \<Rightarrow> bool" where
  "inStock db a =
     (whole (a_productQuantity a) \<and> 0 \<le> a_availableQuantity a \<and>
      a_availableQuantity a + of_nat (assignedCount db (a_id a)) = a_productQuantity a)"

text \<open>
  A store as the handlers leave it: the ids of assets and of assignments are unique and
  below the counter, an assignment names an asset id below the counter, and the stock
  of every asset adds up.
\<close>

definition sound :: "store \<Rightarrow> bool" where
  "sound db =
     (distinct (map a_id (assetsCollection db)) \<and>
      distinct (map g_id (assetAssignmentsCollection db)) \<and>
      list_all (\<lambda>a. a_id a < nextId db) (assetsCollection db) \<and>
      list_all (\<lambda>g. g_id g < nextId db \<and> g_assetId g < nextId db) (assetAssignmentsCollection db) \<and>
      list_all (inStock db) (assetsCollection db))"

text \<open>The quantity a call sets, if it sets one, is whole.\<close>

fun wholeCall :: "nat \<times> authorization \<times> call \<Rightarrow> bool" where
  "wholeCall (now, auth, PostAssets b) = whole (or_zero (na_productQuantity b))"
| "wholeCall (now, auth, PutAssets assetId b) = whole (or_zero (au_productQuantity b))"
| "wholeCall (now, auth, c) = True"

text \<open>
  Alice's package is used up, and Bob's request for her laptop names Carol of Other as
  its HR (\<open>hrEmail\<close> and \<open>companyName\<close> are fields of the body of POST /requests).
\<close>

definition officeCrossed :: store where
  "officeCrossed =
     officeFull\<lparr> requestsCollection :=
                   [laptopRequest\<lparr> r_hrEmail := ''carol@other.io'', r_companyName := ''Other'' \<rparr>] \<rparr>"

text \<open>Alice's package is used up, Carol's \<open>packageLimit\<close> is 0, and Bob's request names Alice.\<close>

definition officeZero :: store where
  "officeZero =
     office\<lparr> usersCollection :=
               [alice\<lparr> u_currentEmployees := Some 5 \<rparr>, carol\<lparr> u_packageLimit := Some 0 \<rparr>, bob] \<rparr>"

section \<open>Properties\<close>

subsection \<open>The middleware\<close>

lemma hr_pass:
  "authorizedHR db auth \<Longrightarrow> verifyToken auth db (\<lambda>decoded. verifyHR decoded db k) = k"
  by (auto simp: authorizedHR_def verifyToken_def verifyHR_def
      split: authorization.splits option.splits)

lemma hr_block:
  "\<not> authorizedHR db auth \<Longrightarrow>
   verifyToken auth db (\<lambda>decoded. verifyHR decoded db k) \<in>
     {(Error 401 ''UNAUTHORIZED'', db), (Error 401 ''INVALID_TOKEN'', db), (Error 403 ''FORBIDDEN'', db)}"
  by (auto simp: authorizedHR_def verifyToken_def verifyHR_def sendError_def
      split: authorization.splits option.splits)

lemma alice_authorized: "authorizedHR office (Bearer (Some ''alice@acme.io''))"
  by (simp add: authorizedHR_def office_def alice_def)

subsection \<open>Approval without available quantity\<close>

lemma approve_unavailable:
  "unavailable db request \<Longrightarrow>
   approveRequest db now rid request = (Error 400 ''NO_AVAILABLE_QUANTITY'', db)"
  by (auto simp: unavailable_def approveRequest_def sendError_def split: option.splits)

text \<open>
  Claim C2. A pending request whose asset is missing or has no available quantity cannot
  be approved: the store after the call is the store before it, an HR caller is answered
  400 NO_AVAILABLE_QUANTITY, and any other caller is stopped by the middleware.
\<close>

theorem approve_unavailable_fails:
  assumes "find (\<lambda>r. r_id r = rid) (requestsCollection db) = Some request"
    and "r_status request = ''pending''"
    and "unavailable db request"
  shows "snd (patchRequest db now auth (Valid rid) ''approved'' reason) = db \<and>
         (if authorizedHR db auth
          then fst (patchRequest db now auth (Valid rid) ''approved'' reason) =
                 Error 400 ''NO_AVAILABLE_QUANTITY''
          else fst (patchRequest db now auth (Valid rid) ''approved'' reason) \<in>
                 {Error 401 ''UNAUTHORIZED'', Error 401 ''INVALID_TOKEN'', Error 403 ''FORBIDDEN''})"
proof (cases "authorizedHR db auth")
  case True
  then have "patchRequest db now auth (Valid rid) ''approved'' reason =
             updateRequestStatus db now (Valid rid) ''approved'' reason"
    unfolding patchRequest_def by (rule hr_pass)
  also have "\<dots> = (Error 400 ''NO_AVAILABLE_QUANTITY'', db)"
    using assms by (simp add: updateRequestStatus_def approve_unavailable)
  finally show ?thesis using True by simp
next
  case False
  from hr_block[OF this, of "updateRequestStatus db now (Valid rid) ''approved'' reason"]
  show ?thesis using False unfolding patchRequest_def by auto
qed

theorem approve_unavailable_fails_witness:
  "find (\<lambda>r. r_id r = 20) (requestsCollection officeNoLaptop) = Some laptopRequest \<and>
   r_status laptopRequest = ''pending'' \<and>
   unavailable officeNoLaptop laptopRequest \<and>
   patchRequest officeNoLaptop 7 (Bearer (Some ''alice@acme.io'')) (Valid 20) ''approved'' None =
     (Error 400 ''NO_AVAILABLE_QUANTITY'', officeNoLaptop)"
proof -
  have found: "find (\<lambda>r. r_id r = 20) (requestsCollection officeNoLaptop) = Some laptopRequest"
    by (simp add: officeNoLaptop_def office_def laptopRequest_def)
  have pending: "r_status laptopRequest = ''pending''"
    by (simp add: laptopRequest_def)
  have out: "unavailable officeNoLaptop laptopRequest"
    by (simp add: unavailable_def officeNoLaptop_def office_def laptopRequest_def laptop_def)
  have hr: "authorizedHR officeNoLaptop (Bearer (Some ''alice@acme.io''))"
    by (simp add: authorizedHR_def officeNoLaptop_def office_def alice_def)
  from approve_unavailable_fails[OF found pending out, of 7 "Bearer (Some ''alice@acme.io'')" None] hr
  have "patchRequest officeNoLaptop 7 (Bearer (Some ''alice@acme.io'')) (Valid 20) ''approved'' None =
        (Error 400 ''NO_AVAILABLE_QUANTITY'', officeNoLaptop)"
    by (simp add: prod_eq_iff)
  with found pending out show ?thesis by simp
qed

subsection \<open>What each route does to the store\<close>



lemma verifyToken_snd:
  assumes "P db" and "\<And>decoded. P (snd (k decoded))"
  shows "P (snd (verifyToken auth db k))"
  using assms by (simp add: verifyToken_def split: authorization.splits)

lemma verifyHR_snd:
  assumes "P db" and "P (snd k)"
  shows "P (snd (verifyHR decoded db k))"
  using assms by (simp add: verifyHR_def split: option.splits)

lemma serve_snd:
  assumes db: "P db"
    and "\<And>b. c = PostUsers b \<Longrightarrow> P (snd (createUser db now b))"
    and "\<And>decoded email b. c = PutUsers email b \<Longrightarrow> P (snd (updateUser db now decoded email b))"
    and "\<And>decoded b. c = PostAssets b \<Longrightarrow> P (snd (createAsset db now decoded b))"
    and "\<And>assetId b. c = PutAssets assetId b \<Longrightarrow> P (snd (updateAsset db now assetId b))"
    and "\<And>assetId. c = DeleteAssets assetId \<Longrightarrow> P (snd (deleteAsset db assetId))"
    and "\<And>decoded b. c = PostRequests b \<Longrightarrow> P (snd (createRequest db now decoded b))"
    and "\<And>requestId status reason. c = PatchRequests requestId status reason \<Longrightarrow>
           P (snd (updateRequestStatus db now requestId status reason))"
    and "\<And>decoded assignmentId employeeEmail. c = PatchReturn assignmentId employeeEmail \<Longrightarrow>
           P (snd (returnAsset db now decoded assignmentId employeeEmail))"
    and "\<And>employeeEmail companyName. c = PatchAffiliationsRemove employeeEmail companyName \<Longrightarrow>
           P (snd (removeAffiliation db now employeeEmail companyName))"
    and "\<And>b. c = PostAssignAsset b \<Longrightarrow> P (snd (assignAsset db now b))"
  shows "P (snd (serve db now auth c))"
proof (cases c)
  case (PostUsers b)
  then show ?thesis using assms(2) by simp
next
  case (GetUser email)
  then show ?thesis using db by (simp add: getUser_def Let_def split: option.splits)
next
  case (GetUsersByEmails emails)
  have "P (snd (getUsersByEmails db emails))"
    using db by (simp add: getUsersByEmails_def Let_def)
  then show ?thesis unfolding GetUsersByEmails serve.simps
    by (intro verifyToken_snd[where P=P] db)
next
  case (PutUsers email b)
  show ?thesis unfolding PutUsers serve.simps
    by (intro verifyToken_snd[where P=P] db assms(3)[OF PutUsers])
next
  case (GetTeamMembers companyName role)
  then show ?thesis using db by (simp add: getTeamMembers_def Let_def)
next
  case (PostAssets b)
  show ?thesis unfolding PostAssets serve.simps
    by (intro verifyToken_snd[where P=P] verifyHR_snd[where P=P] db assms(4)[OF PostAssets])
next
  case (PutAssets assetId b)
  show ?thesis unfolding PutAssets serve.simps
    by (intro verifyToken_snd[where P=P] verifyHR_snd[where P=P] db assms(5)[OF PutAssets])
next
  case (DeleteAssets assetId)
  show ?thesis unfolding DeleteAssets serve.simps
    by (intro verifyToken_snd[where P=P] verifyHR_snd[where P=P] db assms(6)[OF DeleteAssets])
next
  case (PostRequests b)
  show ?thesis unfolding PostRequests serve.simps
    by (intro verifyToken_snd[where P=P] db assms(7)[OF PostRequests])
next
  case (PatchRequests requestId status reason)
  show ?thesis unfolding PatchRequests serve.simps patchRequest_def
    by (intro verifyToken_snd[where P=P] verifyHR_snd[where P=P] db assms(8)[OF PatchRequests])
next
  case (PatchReturn assignmentId employeeEmail)
  show ?thesis unfolding PatchReturn serve.simps
    by (intro verifyToken_snd[where P=P] db assms(9)[OF PatchReturn])
next
  case (PatchAffiliationsRemove employeeEmail companyName)
  show ?thesis unfolding PatchAffiliationsRemove serve.simps
    by (intro verifyToken_snd[where P=P] verifyHR_snd[where P=P] db
        assms(10)[OF PatchAffiliationsRemove])
next
  case (PostAssignAsset b)
  show ?thesis unfolding PostAssignAsset serve.simps
    by (intro verifyToken_snd[where P=P] verifyHR_snd[where P=P] db assms(11)[OF PostAssignAsset])
qed

lemma find_append_Some: "find p xs = Some x \<Longrightarrow> find p (xs @ ys) = Some x"
  by (induction xs) (auto split: if_splits)

lemma find_updateOne_other:
  assumes "\<And>x. p x \<Longrightarrow> \<not> q x" and "\<And>x. q x \<Longrightarrow> p (f x) = p x"
  shows "find p (updateOne q f xs) = find p xs"
  using assms by (induction xs) auto

lemma returnAll_requests: "requestsCollection (returnAll now gs db) = requestsCollection db"
  by (induction gs arbitrary: db) auto

lemma createUser_requests: "requestsCollection (snd (createUser db now b)) = requestsCollection db"
  by (simp add: createUser_def Let_def split: option.splits)

lemma updateUser_requests:
  "requestsCollection (snd (updateUser db now decoded email b)) = requestsCollection db"
  by (simp add: updateUser_def Let_def split: option.splits)

lemma createAsset_requests:
  "requestsCollection (snd (createAsset db now decoded b)) = requestsCollection db"
  by (simp add: createAsset_def Let_def split: option.splits)

lemma updateAsset_requests:
  "requestsCollection (snd (updateAsset db now assetId b)) = requestsCollection db"
  by (simp add: updateAsset_def writeAsset_def Let_def split: option.splits id_text.splits)

lemma deleteAsset_requests:
  "requestsCollection (snd (deleteAsset db assetId)) = requestsCollection db"
  by (simp add: deleteAsset_def split: option.splits id_text.splits)

lemma returnAsset_requests:
  "requestsCollection (snd (returnAsset db now decoded assignmentId employeeEmail)) = requestsCollection db"
  by (simp add: returnAsset_def Let_def split: option.splits id_text.splits)

lemma removeAffiliation_requests:
  "requestsCollection (snd (removeAffiliation db now employeeEmail companyName)) = requestsCollection db"
  by (simp add: removeAffiliation_def Let_def returnAll_requests split: option.splits)

lemma assignAsset_requests:
  "requestsCollection (snd (assignAsset db now b)) = requestsCollection db"
  by (simp add: assignAsset_def Let_def split: option.splits id_text.splits)

lemma createRequest_requests:
  "requestsCollection (snd (createRequest db now decoded b)) = requestsCollection db \<or>
   (\<exists>r. requestsCollection (snd (createRequest db now decoded b)) = requestsCollection db @ [r] \<and>
        r_status r = ''pending'' \<and> r_id r = nextId db \<and>
        find (\<lambda>x. r_assetId x = r_assetId r \<and> r_employeeEmail x = r_employeeEmail r \<and>
                  r_status x = ''pending'') (requestsCollection db) = None)"
  by (simp add: createRequest_def Let_def split: option.splits id_text.splits)

lemma ensureAffiliation_requests:
  "ensureAffiliation db now request hrUser = Inr db1 \<Longrightarrow> requestsCollection db1 = requestsCollection db"
  by (auto simp: ensureAffiliation_def Let_def split: option.splits if_splits)

text \<open>What PATCH /requests does to the requests collection.\<close>

lemma updateRequestStatus_requests:
  "requestsCollection (snd (updateRequestStatus db now requestId status reason)) = requestsCollection db \<or>
   (\<exists>rid request f. requestId = Valid rid \<and>
       find (\<lambda>r. r_id r = rid) (requestsCollection db) = Some request \<and>
       r_status request = ''pending'' \<and>
       (\<forall>r. r_id (f r) = r_id r \<and> r_assetId (f r) = r_assetId r \<and> r_employeeEmail (f r) = r_employeeEmail r \<and> r_status (f r) \<noteq> ''pending'') \<and>
       requestsCollection (snd (updateRequestStatus db now requestId status reason)) =
         updateOne (\<lambda>r. r_id r = rid) f (requestsCollection db))"
proof (cases requestId)
  case (Valid rid)
  show ?thesis
  proof (cases "find (\<lambda>r. r_id r = rid) (requestsCollection db)")
    case None
    then show ?thesis using Valid by (simp add: updateRequestStatus_def)
  next
    case (Some request)
    show ?thesis
    proof (cases "r_status request = ''pending''")
      case False
      then show ?thesis using Valid Some by (simp add: updateRequestStatus_def)
    next
      case True
      consider "status \<noteq> ''approved'' \<and> status \<noteq> ''rejected''" | "status = ''approved''" | "status = ''rejected''"
        by blast
      then show ?thesis
      proof cases
        case 1
        then show ?thesis using Valid by (simp add: updateRequestStatus_def)
      next
        case 2
        show ?thesis
        proof (cases "requestsCollection (snd (approveRequest db now rid request)) = requestsCollection db")
          case True
          then show ?thesis using Valid Some \<open>r_status request = ''pending''\<close> 2
            by (simp add: updateRequestStatus_def)
        next
          case False
          then obtain db1 asset where r: "approveRequest db now rid request = recordApproval db1 now rid request asset"
            and db1: "requestsCollection db1 = requestsCollection db"
            by (auto simp: approveRequest_def split: option.splits if_splits sum.splits dest: ensureAffiliation_requests)
          have "requestsCollection (snd (recordApproval db1 now rid request asset)) =
                updateOne (\<lambda>r. r_id r = rid)
                  (\<lambda>r. r\<lparr> r_status := ''approved'', r_approvalDate := Some now, r_updatedAt := now \<rparr>)
                  (requestsCollection db)"
            using db1 by (simp add: recordApproval_def Let_def split: option.splits)
          then show ?thesis using Valid Some \<open>r_status request = ''pending''\<close> 2 r
            apply (intro disjI2)
            apply (rule exI[of _ rid], rule exI[of _ request])
            apply (rule exI[of _ "\<lambda>r. r\<lparr> r_status := ''approved'', r_approvalDate := Some now, r_updatedAt := now \<rparr>"])
            apply (simp add: updateRequestStatus_def)
            done
        qed
      next
        case 3
        show ?thesis using Valid Some \<open>r_status request = ''pending''\<close> 3
          apply (intro disjI2)
          apply (rule exI[of _ rid], rule exI[of _ request])
          apply (rule exI[of _ "\<lambda>r. r\<lparr> r_status := ''rejected'', r_rejectionReason := Some (or_else reason []), r_updatedAt := now \<rparr>"])
          apply (simp add: updateRequestStatus_def rejectRequest_def Let_def split: option.splits)
          done
      qed
    qed
  qed
qed (simp_all add: updateRequestStatus_def)


subsection \<open>Decided requests\<close>

lemma decided_step:
  assumes found: "find (\<lambda>r. r_id r = rid) (requestsCollection db) = Some request"
    and decided: "r_status request \<noteq> ''pending''"
  shows "find (\<lambda>r. r_id r = rid) (requestsCollection (snd (serve db now auth c))) = Some request"
proof (rule serve_snd[where P = "\<lambda>d. find (\<lambda>r. r_id r = rid) (requestsCollection d) = Some request"])
  show "find (\<lambda>r. r_id r = rid) (requestsCollection db) = Some request" by (rule found)
next
  fix decoded b
  show "find (\<lambda>r. r_id r = rid) (requestsCollection (snd (createRequest db now decoded b))) = Some request"
    using createRequest_requests[of db now decoded b] found by (auto simp: find_append_Some)
next
  fix requestId status reason
  from updateRequestStatus_requests[of db now requestId status reason]
  show "find (\<lambda>r. r_id r = rid)
          (requestsCollection (snd (updateRequestStatus db now requestId status reason))) = Some request"
  proof
    assume "requestsCollection (snd (updateRequestStatus db now requestId status reason)) =
            requestsCollection db"
    then show ?thesis using found by simp
  next
    assume "\<exists>rid' request' f. requestId = Valid rid' \<and>
       find (\<lambda>r. r_id r = rid') (requestsCollection db) = Some request' \<and>
       r_status request' = ''pending'' \<and>
       (\<forall>r. r_id (f r) = r_id r \<and> r_assetId (f r) = r_assetId r \<and>
            r_employeeEmail (f r) = r_employeeEmail r \<and> r_status (f r) \<noteq> ''pending'') \<and>
       requestsCollection (snd (updateRequestStatus db now requestId status reason)) =
         updateOne (\<lambda>r. r_id r = rid') f (requestsCollection db)"
    then obtain rid' request' f where
      other: "find (\<lambda>r. r_id r = rid') (requestsCollection db) = Some request'"
      and pending: "r_status request' = ''pending''"
      and keeps: "\<And>r. r_id (f r) = r_id r"
      and after: "requestsCollection (snd (updateRequestStatus db now requestId status reason)) =
                    updateOne (\<lambda>r. r_id r = rid') f (requestsCollection db)"
      by blast
    from other pending found decided have "rid' \<noteq> rid" by auto
    then have "find (\<lambda>r. r_id r = rid) (updateOne (\<lambda>r. r_id r = rid') f (requestsCollection db)) =
               find (\<lambda>r. r_id r = rid) (requestsCollection db)"
      by (intro find_updateOne_other) (auto simp: keeps)
    then show ?thesis using after found by simp
  qed
qed (simp_all add: found createUser_requests updateUser_requests createAsset_requests
       updateAsset_requests deleteAsset_requests returnAsset_requests removeAffiliation_requests
       assignAsset_requests)

lemma decided_run:
  assumes "find (\<lambda>r. r_id r = rid) (requestsCollection db) = Some request"
    and "r_status request \<noteq> ''pending''"
  shows "find (\<lambda>r. r_id r = rid) (requestsCollection (run db calls)) = Some request"
  using assms
proof (induction calls arbitrary: db)
  case Nil
  then show ?case by simp
next
  case (Cons c calls)
  obtain now auth k where c: "c = (now, auth, k)" by (cases c)
  from decided_step[OF Cons.prems, of now auth k]
  show ?case unfolding c run.simps by (rule Cons.IH) (rule Cons.prems(2))
qed

text \<open>
  Claim C3. A request that is no longer pending is terminal: whatever calls are served,
  the stored request stays as it is, and a decision on it by an HR caller (approved or
  rejected) is answered 400 INVALID_STATE with the store unchanged.
\<close>

theorem decided_request_is_final:
  assumes "find (\<lambda>r. r_id r = rid) (requestsCollection db) = Some request"
    and "r_status request \<noteq> ''pending''"
  shows "find (\<lambda>r. r_id r = rid) (requestsCollection (run db calls)) = Some request \<and>
         (authorizedHR db auth \<and> (status = ''approved'' \<or> status = ''rejected'') \<longrightarrow>
            patchRequest db now auth (Valid rid) status reason = (Error 400 ''INVALID_STATE'', db))"
proof (intro conjI impI)
  show "find (\<lambda>r. r_id r = rid) (requestsCollection (run db calls)) = Some request"
    using assms by (rule decided_run)
next
  assume a: "authorizedHR db auth \<and> (status = ''approved'' \<or> status = ''rejected'')"
  then have "patchRequest db now auth (Valid rid) status reason =
             updateRequestStatus db now (Valid rid) status reason"
    unfolding patchRequest_def by (intro hr_pass) simp
  also have "\<dots> = (Error 400 ''INVALID_STATE'', db)"
    using assms a by (auto simp: updateRequestStatus_def sendError_def)
  finally show "patchRequest db now auth (Valid rid) status reason = (Error 400 ''INVALID_STATE'', db)" .
qed

theorem decided_request_is_final_witness:
  "find (\<lambda>r. r_id r = 20) (requestsCollection officeDecided) = Some (laptopRequest\<lparr> r_status := ''approved'' \<rparr>) \<and>
   r_status (laptopRequest\<lparr> r_status := ''approved'' \<rparr>) \<noteq> ''pending'' \<and>
   authorizedHR officeDecided (Bearer (Some ''alice@acme.io'')) \<and>
   find (\<lambda>r. r_id r = 20)
     (requestsCollection (run officeDecided
        [(5, Bearer (Some ''carol@other.io''), PatchRequests (Valid 20) ''rejected'' None),
         (6, Bearer (Some ''alice@acme.io''), PatchRequests (Valid 20) ''approved'' None)])) =
     Some (laptopRequest\<lparr> r_status := ''approved'' \<rparr>) \<and>
   patchRequest officeDecided 5 (Bearer (Some ''alice@acme.io'')) (Valid 20) ''rejected'' None =
     (Error 400 ''INVALID_STATE'', officeDecided)"
proof -
  have found: "find (\<lambda>r. r_id r = 20) (requestsCollection officeDecided) =
               Some (laptopRequest\<lparr> r_status := ''approved'' \<rparr>)"
    by (simp add: officeDecided_def office_def laptopRequest_def)
  have decided: "r_status (laptopRequest\<lparr> r_status := ''approved'' \<rparr>) \<noteq> ''pending''"
    by simp
  have hr: "authorizedHR officeDecided (Bearer (Some ''alice@acme.io''))"
    by (simp add: authorizedHR_def officeDecided_def office_def alice_def)
  from decided_request_is_final[OF found decided,
      of "[(5, Bearer (Some ''carol@other.io''), PatchRequests (Valid 20) ''rejected'' None),
           (6, Bearer (Some ''alice@acme.io''), PatchRequests (Valid 20) ''approved'' None)]"
         "Bearer (Some ''alice@acme.io'')" "''rejected''" 5 None]
  show ?thesis using found decided hr by simp
qed

subsection \<open>Returning an asset\<close>

text \<open>
  Claim C4, as stated: a return by a caller who is not the assignee is always answered 403.
  It is not: the handler looks at the assignment's status before it looks at the caller,
  so on an assignment already returned a stranger is answered 400 INVALID_STATE.
\<close>

theorem return_by_stranger_counterexample:
  "Some ''carol@other.io'' \<noteq> Some (g_employeeEmail (bobsLaptop\<lparr> g_status := ''returned'', g_returnDate := Some 4 \<rparr>)) \<and>
   find (\<lambda>g. g_id g = 30) (assetAssignmentsCollection officeReturned) =
     Some (bobsLaptop\<lparr> g_status := ''returned'', g_returnDate := Some 4 \<rparr>) \<and>
   serve officeReturned 9 (Bearer (Some ''carol@other.io'')) (PatchReturn (Valid 30) (Some ''carol@other.io'')) =
     (Error 400 ''INVALID_STATE'', officeReturned) \<and>
   statusCode (fst (serve officeReturned 9 (Bearer (Some ''carol@other.io''))
                      (PatchReturn (Valid 30) (Some ''carol@other.io'')))) \<noteq> 403"
  by (simp add: officeReturned_def officeAssigned_def office_def bobsLaptop_def
      verifyToken_def returnAsset_def truthy_def sendError_def)

text \<open>
  Claim C4, amended. A return by a caller with a verified token who is not the assignee
  (or on an id no assignment has) never changes the store, and is answered 400
  MISSING_EMAIL without an \<open>employeeEmail\<close> in the body, 404 ASSIGNMENT_NOT_FOUND when
  no assignment has the id, 400 INVALID_STATE when the assignment is not in status
  assigned, and 403 FORBIDDEN otherwise.
\<close>

theorem return_by_stranger_refused:
  assumes "notAssignee db gid decoded"
  shows "serve db now (Bearer decoded) (PatchReturn (Valid gid) employeeEmail) =
           (refusal db gid employeeEmail, db)"
  using assms
  by (auto simp: notAssignee_def refusal_def verifyToken_def returnAsset_def sendError_def
      split: option.splits)

theorem return_by_stranger_refused_witness:
  "notAssignee officeAssigned 30 (Some ''carol@other.io'') \<and>
   serve officeAssigned 9 (Bearer (Some ''carol@other.io'')) (PatchReturn (Valid 30) (Some ''bob@mail.io'')) =
     (Error 403 ''FORBIDDEN'', officeAssigned)"
proof -
  have stranger: "notAssignee officeAssigned 30 (Some ''carol@other.io'')"
    by (simp add: notAssignee_def officeAssigned_def office_def bobsLaptop_def)
  have "refusal officeAssigned 30 (Some ''bob@mail.io'') = Error 403 ''FORBIDDEN''"
    by (simp add: refusal_def officeAssigned_def office_def bobsLaptop_def truthy_def)
  with return_by_stranger_refused[OF stranger, of 9 "Some ''bob@mail.io''"] stranger
  show ?thesis by simp
qed

subsection \<open>Who may approve\<close>

lemmas office_defs = office_def alice_def carol_def bob_def laptop_def laptopRequest_def
lemmas approve_defs = patchRequest_def verifyToken_def verifyHR_def updateRequestStatus_def
  approveRequest_def ensureAffiliation_def insertAffiliation_def recordApproval_def
  affiliationFilter_def sendError_def or_zero_def truthy_def Let_def sanitize_def whitespace_def

text \<open>
  Claim C5 asks that only the HR user who owns the asset's company can approve. The
  handler checks \<open>verifyHR\<close> and nothing else: Carol, HR of another company, approves the
  request Bob sent to Alice for Alice's laptop; the request is approved, an assignment
  is inserted and the available quantity drops from 3 to 2.
\<close>

theorem foreign_hr_approves:
  "u_email carol \<noteq> r_hrEmail laptopRequest \<and>
   u_email carol \<noteq> a_hrEmail laptop \<and>
   u_companyName carol \<noteq> Some (a_companyName laptop) \<and>
   fst (serve office 9 (Bearer (Some ''carol@other.io'')) (PatchRequests (Valid 20) ''approved'' None)) =
     Json 200 (Request (laptopRequest\<lparr> r_status := ''approved'', r_approvalDate := Some 9, r_updatedAt := 9 \<rparr>)) \<and>
   map a_availableQuantity
     (assetsCollection (snd (serve office 9 (Bearer (Some ''carol@other.io''))
        (PatchRequests (Valid 20) ''approved'' None)))) = [2] \<and>
   map g_employeeEmail
     (assetAssignmentsCollection (snd (serve office 9 (Bearer (Some ''carol@other.io''))
        (PatchRequests (Valid 20) ''approved'' None)))) = [''bob@mail.io'']"
  by (simp add: office_defs approve_defs)

subsection \<open>The affiliation on approval\<close>

text \<open>
  Claim C6 asks that an approval succeeds when an inactive affiliation of the pair is
  stored. The handler looks for an active affiliation only, finds none and inserts a new
  one, which the unique index on (employeeEmail, companyName) refuses: the call is
  answered 500 SERVER_ERROR and nothing is written.
\<close>

theorem rehire_fails:
  "find (\<lambda>f. affiliationFilter laptopRequest f \<and> f_status f = ''active'')
     (affiliationsCollection officeRehire) = None \<and>
   serve officeRehire 9 (Bearer (Some ''alice@acme.io'')) (PatchRequests (Valid 20) ''approved'' None) =
     (Error 500 ''SERVER_ERROR'', officeRehire)"
  by (simp add: officeRehire_def bobAtAcme_def office_defs approve_defs)

subsection \<open>The package limit\<close>

lemma hr_block_code:
  "\<not> authorizedHR db auth \<Longrightarrow>
   fst (verifyToken auth db (\<lambda>decoded. verifyHR decoded db k)) \<noteq> Error 403 ''PACKAGE_LIMIT''"
  using hr_block[of db auth k] by auto

lemma ensureAffiliation_limit:
  "limitReached hrUser \<Longrightarrow> notAffiliated db request \<Longrightarrow>
   ensureAffiliation db now request hrUser = Inl (Error 403 ''PACKAGE_LIMIT'')"
  by (simp add: ensureAffiliation_def limitReached_def notAffiliated_def Let_def sendError_def)

lemma ensureAffiliation_unlimited:
  "or_zero (u_packageLimit hrUser) = 0 \<Longrightarrow>
   ensureAffiliation db now request hrUser \<noteq> Inl (Error 403 ''PACKAGE_LIMIT'')"
  by (simp add: ensureAffiliation_def Let_def sendError_def split: option.splits)

lemma approve_limit:
  assumes "find (\<lambda>u. u_email u = r_hrEmail request) (usersCollection db) = Some hrUser"
    and "limitReached hrUser" and "notAffiliated db request"
  shows "snd (approveRequest db now rid request) = db"
    and "\<not> unavailable db request \<Longrightarrow>
         fst (approveRequest db now rid request) = Error 403 ''PACKAGE_LIMIT''"
  using assms ensureAffiliation_limit[OF assms(2,3), of now]
  by (auto simp: approveRequest_def unavailable_def sendError_def split: option.splits)

lemma approve_unlimited:
  assumes "find (\<lambda>u. u_email u = r_hrEmail request) (usersCollection db) = Some hrUser"
    and "or_zero (u_packageLimit hrUser) = 0"
  shows "fst (approveRequest db now rid request) \<noteq> Error 403 ''PACKAGE_LIMIT''"
  using assms ensureAffiliation_unlimited[OF assms(2), of db now request]
  by (auto simp: approveRequest_def recordApproval_def Let_def sendError_def split: option.splits sum.splits)

text \<open>
  What the handler checks is the package of the HR user the request names (\<open>hrEmail\<close>),
  whoever the caller is. Let the request be stored and that user be stored. When the
  user's package is used up and the employee has no active affiliation with the company,
  an approval changes nothing in the store, and it is answered 403 PACKAGE_LIMIT once the
  earlier checks pass (an HR caller, a pending request, an asset with available
  quantity). When the user's \<open>packageLimit\<close> is 0 or absent, no answer is 403
  PACKAGE_LIMIT.
\<close>

lemma named_hr_package_limit:
  assumes found: "find (\<lambda>r. r_id r = rid) (requestsCollection db) = Some request"
    and hr: "find (\<lambda>u. u_email u = r_hrEmail request) (usersCollection db) = Some hrUser"
  shows "(limitReached hrUser \<and> notAffiliated db request \<longrightarrow>
            snd (patchRequest db now auth (Valid rid) ''approved'' reason) = db \<and>
            (authorizedHR db auth \<and> r_status request = ''pending'' \<and> \<not> unavailable db request \<longrightarrow>
               fst (patchRequest db now auth (Valid rid) ''approved'' reason) = Error 403 ''PACKAGE_LIMIT'')) \<and>
         (or_zero (u_packageLimit hrUser) = 0 \<longrightarrow>
            fst (patchRequest db now auth (Valid rid) ''approved'' reason) \<noteq> Error 403 ''PACKAGE_LIMIT'')"
proof (cases "authorizedHR db auth")
  case False
  from hr_block[OF False, of "updateRequestStatus db now (Valid rid) ''approved'' reason"]
  show ?thesis using False unfolding patchRequest_def by auto
next
  case True
  then have eq: "patchRequest db now auth (Valid rid) ''approved'' reason =
             updateRequestStatus db now (Valid rid) ''approved'' reason"
    unfolding patchRequest_def by (rule hr_pass)
  show ?thesis
  proof (cases "r_status request = ''pending''")
    case False
    then show ?thesis using found unfolding eq by (simp add: updateRequestStatus_def sendError_def)
  next
    case pending: True
    then have "updateRequestStatus db now (Valid rid) ''approved'' reason = approveRequest db now rid request"
      using found by (simp add: updateRequestStatus_def)
    then show ?thesis unfolding eq
      using approve_limit[OF hr, of now rid] approve_unlimited[OF hr, of now rid] by auto
  qed
qed

lemma named_hr_package_limit_example:
  "find (\<lambda>r. r_id r = 20) (requestsCollection officeFull) = Some laptopRequest \<and>
   find (\<lambda>u. u_email u = r_hrEmail laptopRequest) (usersCollection officeFull) =
     Some (alice\<lparr> u_currentEmployees := Some 5 \<rparr>) \<and>
   limitReached (alice\<lparr> u_currentEmployees := Some 5 \<rparr>) \<and>
   notAffiliated officeFull laptopRequest \<and>
   authorizedHR officeFull (Bearer (Some ''alice@acme.io'')) \<and>
   r_status laptopRequest = ''pending'' \<and>
   \<not> unavailable officeFull laptopRequest \<and>
   patchRequest officeFull 9 (Bearer (Some ''alice@acme.io'')) (Valid 20) ''approved'' None =
     (Error 403 ''PACKAGE_LIMIT'', officeFull)"
proof -
  have found: "find (\<lambda>r. r_id r = 20) (requestsCollection officeFull) = Some laptopRequest"
    by (simp add: officeFull_def office_def laptopRequest_def)
  have hr: "find (\<lambda>u. u_email u = r_hrEmail laptopRequest) (usersCollection officeFull) =
            Some (alice\<lparr> u_currentEmployees := Some 5 \<rparr>)"
    by (simp add: officeFull_def office_def laptopRequest_def alice_def)
  have full: "limitReached (alice\<lparr> u_currentEmployees := Some 5 \<rparr>)"
    by (simp add: limitReached_def alice_def or_zero_def)
  have new: "notAffiliated officeFull laptopRequest"
    by (simp add: notAffiliated_def officeFull_def office_def)
  have caller: "authorizedHR officeFull (Bearer (Some ''alice@acme.io''))"
    by (simp add: authorizedHR_def officeFull_def office_def alice_def)
  have pending: "r_status laptopRequest = ''pending''"
    by (simp add: laptopRequest_def)
  have avail: "\<not> unavailable officeFull laptopRequest"
    by (simp add: unavailable_def officeFull_def office_def laptopRequest_def laptop_def)
  from named_hr_package_limit[OF found hr, of 9 "Bearer (Some ''alice@acme.io'')" None]
    full new caller pending avail
  have "patchRequest officeFull 9 (Bearer (Some ''alice@acme.io'')) (Valid 20) ''approved'' None =
        (Error 403 ''PACKAGE_LIMIT'', officeFull)"
    by (simp add: prod_eq_iff)
  with found hr full new caller pending avail show ?thesis by simp
qed

text \<open>
  Claim C7 is about the HR who makes the approval attempt. The handler never reads the
  caller's package: it reads the one of the user named by the \<open>hrEmail\<close> of the
  request, and no check ties that field to the caller (nor, in POST /requests, to the
  asset). So Alice, with 5 of 5 employees, approves the request for her laptop that names
  Carol: the answer is 200, the assignment and an affiliation are inserted and the
  available quantity drops. And Carol, whose \<open>packageLimit\<close> is 0, is answered 403
  PACKAGE_LIMIT when she approves the request that names Alice.
\<close>

theorem approver_limit_is_not_checked:
  "authorizedHR officeCrossed (Bearer (Some ''alice@acme.io'')) \<and>
   find (\<lambda>u. u_email u = ''alice@acme.io'') (usersCollection officeCrossed) =
     Some (alice\<lparr> u_currentEmployees := Some 5 \<rparr>) \<and>
   limitReached (alice\<lparr> u_currentEmployees := Some 5 \<rparr>) \<and>
   affiliationsCollection officeCrossed = [] \<and>
   statusCode (fst (serve officeCrossed 9 (Bearer (Some ''alice@acme.io''))
                      (PatchRequests (Valid 20) ''approved'' None))) = 200 \<and>
   map (\<lambda>g. (g_employeeEmail g, g_status g))
     (assetAssignmentsCollection (snd (serve officeCrossed 9 (Bearer (Some ''alice@acme.io''))
        (PatchRequests (Valid 20) ''approved'' None)))) = [(''bob@mail.io'', ''assigned'')] \<and>
   map (\<lambda>f. (f_employeeEmail f, f_hrEmail f, f_status f))
     (affiliationsCollection (snd (serve officeCrossed 9 (Bearer (Some ''alice@acme.io''))
        (PatchRequests (Valid 20) ''approved'' None)))) =
     [(''bob@mail.io'', ''carol@other.io'', ''active'')] \<and>
   map a_availableQuantity
     (assetsCollection (snd (serve officeCrossed 9 (Bearer (Some ''alice@acme.io''))
        (PatchRequests (Valid 20) ''approved'' None)))) = [2] \<and>
   authorizedHR officeZero (Bearer (Some ''carol@other.io'')) \<and>
   find (\<lambda>u. u_email u = ''carol@other.io'') (usersCollection officeZero) =
     Some (carol\<lparr> u_packageLimit := Some 0 \<rparr>) \<and>
   u_packageLimit (carol\<lparr> u_packageLimit := Some 0 \<rparr>) = Some 0 \<and>
   serve officeZero 9 (Bearer (Some ''carol@other.io'')) (PatchRequests (Valid 20) ''approved'' None) =
     (Error 403 ''PACKAGE_LIMIT'', officeZero)"
  by (simp add: officeCrossed_def officeZero_def officeFull_def office_defs approve_defs
      authorizedHR_def limitReached_def)

subsection \<open>The team members\<close>

text \<open>
  Claim C9. GET /team-members has no middleware: whatever the \<open>Authorization\<close> header,
  the answer is 200 with the stored users that match the query (\<open>companyName\<close> and
  \<open>role\<close>, each optional), passwords deleted, and never 401. The store is unchanged.
\<close>

theorem team_members_is_public:
  "serve db now auth (GetTeamMembers companyName role) =
     (Json 200 (Users (map deletePassword (filter (teamQuery companyName role) (usersCollection db)))), db) \<and>
   statusCode (fst (serve db now auth (GetTeamMembers companyName role))) \<noteq> 401"
proof -
  have "(\<lambda>u. (if truthy companyName then u_companyName u = Some (sanitize (text_of companyName)) else True) \<and>
             (if truthy role then u_role u = text_of role else True)) = teamQuery companyName role"
    by (auto simp: teamQuery_def fun_eq_iff)
  then show ?thesis by (simp add: getTeamMembers_def)
qed

theorem team_members_is_public_witness:
  "serve office 0 NoBearer (GetTeamMembers (Some ''Acme'') None) =
     (Json 200 (Users [alice\<lparr> u_password := None \<rparr>]), office) \<and>
   serve office 0 BadToken (GetTeamMembers None (Some ''employee'')) =
     (Json 200 (Users [bob\<lparr> u_password := None \<rparr>]), office)"
proof -
  have "filter (teamQuery (Some ''Acme'') None) (usersCollection office) = [alice]"
    by (simp add: teamQuery_def office_defs truthy_def text_of_def sanitize_def whitespace_def)
  moreover have "filter (teamQuery None (Some ''employee'')) (usersCollection office) = [bob]"
    by (simp add: teamQuery_def office_defs truthy_def text_of_def)
  ultimately show ?thesis
    using team_members_is_public[of office 0 NoBearer "Some ''Acme''" None]
      team_members_is_public[of office 0 BadToken None "Some ''employee''"]
    by (simp add: deletePassword_def)
qed

subsection \<open>Passwords stay in the store\<close>

lemma deletePassword_idem [simp]: "deletePassword (deletePassword u) = deletePassword u"
  by (simp add: deletePassword_def)

lemma deletePassword_fields [simp]:
  "u_email (deletePassword u) = u_email u"
  "u_role (deletePassword u) = u_role u"
  "u_companyName (deletePassword u) = u_companyName u"
  "u_password (deletePassword u) = None"
  by (simp_all add: deletePassword_def)

lemma find_public:
  assumes "\<And>u. p (deletePassword u) = p u"
  shows "find p (map deletePassword us) = map_option deletePassword (find p us)"
  using assms by (induction us) auto

lemma filter_public:
  assumes "\<And>u. p (deletePassword u) = p u"
  shows "filter p (map deletePassword us) = map deletePassword (filter p us)"
  using assms by (induction us) auto

lemma list_ex_public:
  assumes "\<And>u. p (deletePassword u) = p u"
  shows "list_ex p (map deletePassword us) = list_ex p us"
  using assms by (induction us) auto

lemma updateOne_public:
  assumes "\<And>u. p (deletePassword u) = p u" and "\<And>u. f (deletePassword u) = deletePassword (f u)"
  shows "updateOne p f (map deletePassword us) = map deletePassword (updateOne p f us)"
  using assms by (induction us) auto

lemma applyUserUpdate_public:
  "applyUserUpdate now b (deletePassword u) = deletePassword (applyUserUpdate now b u)"
  by (simp add: applyUserUpdate_def deletePassword_def split del: if_split
      cong: if_cong option.case_cong)

lemma samePublic_users:
  "samePublic db db' \<Longrightarrow> map deletePassword (usersCollection db) = map deletePassword (usersCollection db')"
  unfolding samePublic_def
  by (drule arg_cong[where f = usersCollection]) simp

lemma samePublic_nextId: "samePublic db db' \<Longrightarrow> nextId db = nextId db'"
  unfolding samePublic_def
  by (drule arg_cong[where f = nextId]) simp

lemma samePublic_update:
  assumes "samePublic db db'" and "map deletePassword us = map deletePassword us'"
  shows "samePublic (db\<lparr> usersCollection := us \<rparr>) (db'\<lparr> usersCollection := us' \<rparr>)"
  using assms unfolding samePublic_def
  by (cases db; cases db') simp

lemma samePublic_update_id:
  assumes "samePublic db db'" and "map deletePassword us = map deletePassword us'"
  shows "samePublic (db\<lparr> usersCollection := us, nextId := n \<rparr>) (db'\<lparr> usersCollection := us', nextId := n \<rparr>)"
  using assms unfolding samePublic_def
  by (cases db; cases db') simp

lemma same_find:
  assumes "samePublic db db'" and "\<And>u. p (deletePassword u) = p u"
  shows "map_option deletePassword (find p (usersCollection db)) =
         map_option deletePassword (find p (usersCollection db'))"
  using find_public[of p "usersCollection db", OF assms(2)] find_public[of p "usersCollection db'", OF assms(2)]
    samePublic_users[OF assms(1)] by simp

lemma same_filter:
  assumes "samePublic db db'" and "\<And>u. p (deletePassword u) = p u"
  shows "map deletePassword (filter p (usersCollection db)) =
         map deletePassword (filter p (usersCollection db'))"
  using filter_public[of p "usersCollection db", OF assms(2)] filter_public[of p "usersCollection db'", OF assms(2)]
    samePublic_users[OF assms(1)] by simp

lemma same_list_ex:
  assumes "samePublic db db'" and "\<And>u. p (deletePassword u) = p u"
  shows "list_ex p (usersCollection db) = list_ex p (usersCollection db')"
  using list_ex_public[of p "usersCollection db", OF assms(2)] list_ex_public[of p "usersCollection db'", OF assms(2)]
    samePublic_users[OF assms(1)] by simp

lemma agree_if:
  assumes "agree a a'" and "\<not> c \<Longrightarrow> agree x y"
  shows "agree (if c then a else x) (if c then a' else y)"
  using assms by simp

lemma agree_error:
  "samePublic db db' \<Longrightarrow> agree (sendError n code, db) (sendError n code, db')"
  by (simp add: agree_def sendError_def)

lemma same_None:
  assumes "samePublic db db'" and "\<And>u. p (deletePassword u) = p u"
  shows "(find p (usersCollection db) = None) = (find p (usersCollection db') = None)"
proof -
  have "map_option deletePassword (find p (usersCollection db)) =
        map_option deletePassword (find p (usersCollection db'))"
    using assms by (rule same_find)
  then show ?thesis
    by (cases "find p (usersCollection db)"; cases "find p (usersCollection db')") simp_all
qed

lemma insertUser_agree:
  assumes same: "samePublic db db'"
  shows "agree
     (case insertUser nu (usersCollection db) of
        None \<Rightarrow> (sendError 500 ''SERVER_ERROR'', db)
      | Some us \<Rightarrow> (Json 201 (User (nu\<lparr> u_password := None \<rparr>)),
                    db\<lparr> usersCollection := us, nextId := n \<rparr>))
     (case insertUser nu (usersCollection db') of
        None \<Rightarrow> (sendError 500 ''SERVER_ERROR'', db')
      | Some us \<Rightarrow> (Json 201 (User (nu\<lparr> u_password := None \<rparr>)),
                    db'\<lparr> usersCollection := us, nextId := n \<rparr>))"
proof -
  have e: "list_ex (\<lambda>u. u_email u = u_email nu) (usersCollection db) =
           list_ex (\<lambda>u. u_email u = u_email nu) (usersCollection db')"
    by (rule same_list_ex[OF same]) simp
  have a: "map deletePassword (usersCollection db @ [nu]) = map deletePassword (usersCollection db' @ [nu])"
    using samePublic_users[OF same] by simp
  show ?thesis
  proof (cases "list_ex (\<lambda>u. u_email u = u_email nu) (usersCollection db')")
    case True
    then show ?thesis using same by (simp add: insertUser_def e agree_error)
  next
    case False
    then show ?thesis
      using samePublic_update_id[OF same a, of n]
      by (simp add: insertUser_def e agree_def)
  qed
qed

lemma createUser_agree:
  assumes same: "samePublic db db'"
  shows "agree (createUser db now b) (createUser db' now b)"
proof -
  let ?email = "text_of (nu_email b)"
  have f: "(find (\<lambda>u. u_email u = ?email) (usersCollection db) = None) =
           (find (\<lambda>u. u_email u = ?email) (usersCollection db') = None)"
    by (rule same_None[OF same]) simp
  show ?thesis
  proof (cases "find (\<lambda>u. u_email u = ?email) (usersCollection db)")
    case None
    with f have None': "find (\<lambda>u. u_email u = ?email) (usersCollection db') = None" by simp
    show ?thesis
      unfolding createUser_def Let_def samePublic_nextId[OF same] None None' option.case
      by (intro agree_if agree_error[OF same] insertUser_agree[OF same])
  next
    case (Some x)
    with f obtain x' where Some': "find (\<lambda>u. u_email u = ?email) (usersCollection db') = Some x'"
      by auto
    show ?thesis
      unfolding createUser_def Let_def Some Some' option.case
      by (intro agree_if agree_error[OF same])
  qed
qed

lemma getUser_agree:
  assumes "samePublic db db'"
  shows "agree (getUser db email) (getUser db' email)"
proof -
  from same_find[OF assms, of "\<lambda>u. u_email u = sanitize email"]
  have "map_option deletePassword (find (\<lambda>u. u_email u = sanitize email) (usersCollection db)) =
        map_option deletePassword (find (\<lambda>u. u_email u = sanitize email) (usersCollection db'))"
    by simp
  then show ?thesis using assms
    by (auto simp: agree_def getUser_def Let_def sendError_def split: option.splits)
qed

lemma getUsersByEmails_agree:
  assumes "samePublic db db'"
  shows "agree (getUsersByEmails db emails) (getUsersByEmails db' emails)"
  using assms same_filter[OF assms,
      of "\<lambda>u. u_email u \<in> set (filter isValidEmail (map sanitize (split CHR '','' (text_of emails))))"]
  by (simp add: agree_def getUsersByEmails_def Let_def sendError_def list_all_iff)

lemma getTeamMembers_agree:
  assumes "samePublic db db'"
  shows "agree (getTeamMembers db companyName role) (getTeamMembers db' companyName role)"
  using assms same_filter[OF assms,
      of "\<lambda>u. (if truthy companyName then u_companyName u = Some (sanitize (text_of companyName)) else True) \<and>
              (if truthy role then u_role u = text_of role else True)"]
  by (simp add: agree_def getTeamMembers_def Let_def list_all_iff)

lemma updateUser_agree:
  assumes "samePublic db db'"
  shows "agree (updateUser db now decoded email b) (updateUser db' now decoded email b)"
proof -
  let ?p = "\<lambda>u. u_email u = sanitize email"
  let ?us = "updateOne ?p (applyUserUpdate now b) (usersCollection db)"
  let ?us' = "updateOne ?p (applyUserUpdate now b) (usersCollection db')"
  have e: "list_ex ?p (usersCollection db) = list_ex ?p (usersCollection db')"
    using same_list_ex[OF assms, of ?p] by simp
  have m: "map deletePassword ?us = map deletePassword ?us'"
    using updateOne_public[of ?p "applyUserUpdate now b" "usersCollection db"]
      updateOne_public[of ?p "applyUserUpdate now b" "usersCollection db'"]
      samePublic_users[OF assms]
    by (simp add: applyUserUpdate_public)
  have s: "samePublic (db\<lparr> usersCollection := ?us \<rparr>) (db'\<lparr> usersCollection := ?us' \<rparr>)"
    using assms m by (rule samePublic_update)
  have "map_option deletePassword (find ?p ?us) = map_option deletePassword (find ?p ?us')"
    using find_public[of ?p ?us] find_public[of ?p ?us'] m by simp
  then show ?thesis using assms e s
    by (auto simp: agree_def updateUser_def Let_def sendError_def split: option.splits)
qed

lemma agree_verifyToken:
  assumes "samePublic db db'" and "\<And>decoded. agree (k decoded) (k' decoded)"
  shows "agree (verifyToken auth db k) (verifyToken auth db' k')"
  using assms by (simp add: verifyToken_def agree_error split: authorization.splits)

lemma serve_agree:
  assumes same: "samePublic db db'" and route: "userRoute c"
  shows "agree (serve db now auth c) (serve db' now auth c)"
proof (cases c)
  case (PostUsers b)
  then show ?thesis using createUser_agree[OF same] by simp
next
  case (GetUser email)
  then show ?thesis using getUser_agree[OF same] by simp
next
  case (GetUsersByEmails emails)
  have "agree (getUsersByEmails db emails) (getUsersByEmails db' emails)"
    by (rule getUsersByEmails_agree[OF same])
  then show ?thesis unfolding GetUsersByEmails serve.simps
    by (intro agree_verifyToken[OF same])
next
  case (PutUsers email b)
  have "agree (updateUser db now decoded email b) (updateUser db' now decoded email b)" for decoded
    by (rule updateUser_agree[OF same])
  then show ?thesis unfolding PutUsers serve.simps
    by (intro agree_verifyToken[OF same])
next
  case (GetTeamMembers companyName role)
  then show ?thesis using getTeamMembers_agree[OF same] by simp
qed (use route in simp_all)

text \<open>
  Claim C10. On the routes that answer with user documents (POST /users, GET
  /user/:email, GET /users-by-emails, PUT /users/:email, GET /team-members), two stores
  that differ at most in the passwords of their users give the same response, the stores
  after the call again differ at most in passwords, and no user document of the
  response carries a password.
\<close>

theorem passwords_never_leave:
  assumes "samePublic db db'" and "userRoute c"
  shows "fst (serve db now auth c) = fst (serve db' now auth c) \<and>
         samePublic (snd (serve db now auth c)) (snd (serve db' now auth c)) \<and>
         list_all (\<lambda>u. u_password u = None) (usersOf (fst (serve db now auth c)))"
  by (rule serve_agree[OF assms, unfolded agree_def])

theorem passwords_never_leave_witness:
  "samePublic office officeOtherPasswords \<and>
   userRoute (GetUser ''alice@acme.io'') \<and>
   fst (serve office 0 NoBearer (GetUser ''alice@acme.io'')) =
     fst (serve officeOtherPasswords 0 NoBearer (GetUser ''alice@acme.io'')) \<and>
   fst (serve office 0 NoBearer (GetUser ''alice@acme.io'')) =
     Json 200 (User (alice\<lparr> u_password := None \<rparr>))"
proof -
  have same: "samePublic office officeOtherPasswords"
    by (simp add: samePublic_def officeOtherPasswords_def office_defs deletePassword_def)
  have route: "userRoute (GetUser ''alice@acme.io'')" by simp
  have "sanitize ''alice@acme.io'' = ''alice@acme.io''"
    by (simp add: sanitize_def whitespace_def)
  moreover have "isValidEmail ''alice@acme.io''"
    by (simp add: isValidEmail_def plain_def whitespace_def)
  ultimately have "fst (serve office 0 NoBearer (GetUser ''alice@acme.io'')) =
        Json 200 (User (alice\<lparr> u_password := None \<rparr>))"
    by (simp add: getUser_def Let_def office_def alice_def deletePassword_def)
  with passwords_never_leave[OF same route, of 0 NoBearer] same route
  show ?thesis by simp
qed

subsection \<open>One pending request per employee and asset\<close>

lemma pendingKeys_cong:
  "requestsCollection db' = requestsCollection db \<Longrightarrow> pendingKeys db' = pendingKeys db"
  by (simp add: pendingKeys_def)

lemma duplicate_found:
  "((aid, email) \<in> set (pendingKeys db)) =
   (find (\<lambda>r. r_assetId r = aid \<and> r_employeeEmail r = email \<and> r_status r = ''pending'')
      (requestsCollection db) \<noteq> None)"
  by (auto simp: pendingKeys_def find_None_iff)

lemma keys_updateOne_subset:
  assumes "\<And>x. key (f x) = key x"
  shows "set (map key (filter pend (updateOne q f xs))) \<subseteq> set (map key (filter pend xs)) \<union> {k. \<exists>x. q x \<and> pend (f x) \<and> k = key x}"
  using assms by (induction xs) auto

lemma distinct_keys_updateOne:
  assumes "\<And>x. key (f x) = key x" and "\<And>x. \<not> pend (f x)"
    and "distinct (map key (filter pend xs))"
  shows "distinct (map key (filter pend (updateOne q f xs)))"
  using assms(3)
proof (induction xs)
  case Nil
  then show ?case by simp
next
  case (Cons x xs)
  have sub: "set (map key (filter pend (updateOne q f xs))) \<subseteq> set (map key (filter pend xs))"
    using keys_updateOne_subset[of key f pend q xs] assms(1,2) by auto
  show ?case
  proof (cases "q x")
    case True
    then show ?thesis using Cons.prems assms(2) by (auto split: if_splits)
  next
    case False
    then show ?thesis using Cons sub by (auto split: if_splits)
  qed
qed

lemma pending_step:
  assumes inv: "distinct (pendingKeys db)"
  shows "distinct (pendingKeys (snd (serve db now auth c)))"
proof (rule serve_snd[where P = "\<lambda>d. distinct (pendingKeys d)"])
  show "distinct (pendingKeys db)" by (rule inv)
next
  fix decoded b
  from createRequest_requests[of db now decoded b]
  show "distinct (pendingKeys (snd (createRequest db now decoded b)))"
  proof
    assume "requestsCollection (snd (createRequest db now decoded b)) = requestsCollection db"
    then show ?thesis using inv by (simp add: pendingKeys_def)
  next
    assume "\<exists>r. requestsCollection (snd (createRequest db now decoded b)) = requestsCollection db @ [r] \<and>
        r_status r = ''pending'' \<and> r_id r = nextId db \<and>
        find (\<lambda>x. r_assetId x = r_assetId r \<and> r_employeeEmail x = r_employeeEmail r \<and>
                  r_status x = ''pending'') (requestsCollection db) = None"
    then obtain r where
      app: "requestsCollection (snd (createRequest db now decoded b)) = requestsCollection db @ [r]"
      and pend: "r_status r = ''pending''"
      and none: "find (\<lambda>x. r_assetId x = r_assetId r \<and> r_employeeEmail x = r_employeeEmail r \<and>
                  r_status x = ''pending'') (requestsCollection db) = None"
      by blast
    from none have "(r_assetId r, r_employeeEmail r) \<notin> set (pendingKeys db)"
      by (simp add: duplicate_found)
    moreover have "pendingKeys (snd (createRequest db now decoded b)) =
                   pendingKeys db @ [(r_assetId r, r_employeeEmail r)]"
      using app pend by (simp add: pendingKeys_def)
    ultimately show ?thesis using inv by simp
  qed
next
  fix requestId status reason
  from updateRequestStatus_requests[of db now requestId status reason]
  show "distinct (pendingKeys (snd (updateRequestStatus db now requestId status reason)))"
  proof
    assume "requestsCollection (snd (updateRequestStatus db now requestId status reason)) =
            requestsCollection db"
    then show ?thesis using inv by (simp add: pendingKeys_def)
  next
    assume "\<exists>rid request f. requestId = Valid rid \<and>
       find (\<lambda>r. r_id r = rid) (requestsCollection db) = Some request \<and>
       r_status request = ''pending'' \<and>
       (\<forall>r. r_id (f r) = r_id r \<and> r_assetId (f r) = r_assetId r \<and>
            r_employeeEmail (f r) = r_employeeEmail r \<and> r_status (f r) \<noteq> ''pending'') \<and>
       requestsCollection (snd (updateRequestStatus db now requestId status reason)) =
         updateOne (\<lambda>r. r_id r = rid) f (requestsCollection db)"
    then obtain rid f where
      keeps: "\<And>r. r_assetId (f r) = r_assetId r" "\<And>r. r_employeeEmail (f r) = r_employeeEmail r"
      and decided: "\<And>r. r_status (f r) \<noteq> ''pending''"
      and after: "requestsCollection (snd (updateRequestStatus db now requestId status reason)) =
                    updateOne (\<lambda>r. r_id r = rid) f (requestsCollection db)"
      by blast
    have "distinct (map (\<lambda>r. (r_assetId r, r_employeeEmail r))
            (filter (\<lambda>r. r_status r = ''pending'')
               (updateOne (\<lambda>r. r_id r = rid) f (requestsCollection db))))"
      using inv unfolding pendingKeys_def
      by (intro distinct_keys_updateOne) (simp_all add: keeps decided)
    then show ?thesis using after by (simp add: pendingKeys_def)
  qed
qed (simp_all add: inv[unfolded pendingKeys_def] pendingKeys_def createUser_requests updateUser_requests createAsset_requests
       updateAsset_requests deleteAsset_requests returnAsset_requests removeAffiliation_requests
       assignAsset_requests)

lemma pending_run:
  "distinct (pendingKeys db) \<Longrightarrow> distinct (pendingKeys (run db calls))"
proof (induction calls arbitrary: db)
  case Nil
  then show ?case by simp
next
  case (Cons c calls)
  obtain now auth k where c: "c = (now, auth, k)" by (cases c)
  from pending_step[OF Cons.prems, of now auth k]
  show ?case unfolding c run.simps by (rule Cons.IH)
qed

lemma createRequest_created:
  assumes "fst (createRequest db now decoded b) = Json 201 (Request r)"
  shows "available db (r_assetId r) \<and> (r_assetId r, r_employeeEmail r) \<notin> set (pendingKeys db) \<and>
         r_status r = ''pending'' \<and> nr_assetId b = Valid (r_assetId r) \<and>
         Some (r_employeeEmail r) = nr_employeeEmail b \<and> decoded = nr_employeeEmail b \<and>
         snd (createRequest db now decoded b) = db\<lparr> requestsCollection := requestsCollection db @ [r],
                                                    nextId := Suc (nextId db) \<rparr>"
proof (cases "nr_assetId b")
  case (Valid aid)
  show ?thesis
  proof (cases "find (\<lambda>a. a_id a = aid) (assetsCollection db)")
    case None
    then show ?thesis using assms Valid
      by (simp add: createRequest_def Let_def sendError_def split: if_splits)
  next
    case (Some asset)
    show ?thesis
    proof (cases "find (\<lambda>r. r_assetId r = aid \<and> r_employeeEmail r = text_of (nr_employeeEmail b) \<and>
                             r_status r = ''pending'') (requestsCollection db)")
      case dup: (Some x)
      then show ?thesis using assms Valid Some
        by (simp add: createRequest_def Let_def sendError_def split: if_splits)
    next
      case None
      then have "(aid, text_of (nr_employeeEmail b)) \<notin> set (pendingKeys db)"
        by (simp add: duplicate_found)
      then show ?thesis using assms Valid Some None
        by (auto simp: createRequest_def Let_def sendError_def available_def truthy_def text_of_def
            split: if_splits option.splits)
    qed
  qed
qed (use assms in \<open>simp_all add: createRequest_def Let_def sendError_def split: if_splits\<close>)

lemma createRequest_duplicate:
  assumes "(aid, text_of (nr_employeeEmail b)) \<in> set (pendingKeys db)" and "nr_assetId b = Valid aid"
  shows "snd (createRequest db now decoded b) = db \<and>
         (\<exists>n code. fst (createRequest db now decoded b) = Error n code)"
proof -
  from assms(1) obtain x where
    "find (\<lambda>r. r_assetId r = aid \<and> r_employeeEmail r = text_of (nr_employeeEmail b) \<and>
               r_status r = ''pending'') (requestsCollection db) = Some x"
    by (auto simp: duplicate_found)
  then show ?thesis using assms(2)
    by (simp add: createRequest_def Let_def sendError_def split: option.splits)
qed

lemma createRequest_duplicate_code:
  assumes "requestable db auth b aid" and "(aid, text_of (nr_employeeEmail b)) \<in> set (pendingKeys db)"
  shows "serve db now auth (PostRequests b) = (Error 400 ''DUPLICATE_REQUEST'', db)"
proof -
  from assms(2) obtain x where
    "find (\<lambda>r. r_assetId r = aid \<and> r_employeeEmail r = text_of (nr_employeeEmail b) \<and>
               r_status r = ''pending'') (requestsCollection db) = Some x"
    by (auto simp: duplicate_found)
  then show ?thesis using assms(1)
    by (auto simp: requestable_def available_def verifyToken_def createRequest_def Let_def sendError_def
        split: option.splits)
qed

text \<open>
  Claim C8. POST /requests creates a request only for an asset that exists with
  available quantity and only when the employee has no pending request for that asset;
  with such a pending request stored, the call fails without writing, and with 400
  DUPLICATE_REQUEST once the earlier checks pass. Hence, from a store where no
  (asset, employee) pair has two pending requests, no sequence of calls reaches one
  where a pair has two.
\<close>

theorem one_pending_request:
  assumes "distinct (pendingKeys db)"
  shows "distinct (pendingKeys (run db calls)) \<and>
         (\<forall>r. fst (serve db now auth (PostRequests b)) = Json 201 (Request r) \<longrightarrow>
              available db (r_assetId r) \<and> (r_assetId r, r_employeeEmail r) \<notin> set (pendingKeys db)) \<and>
         (nr_assetId b = Valid aid \<and> (aid, text_of (nr_employeeEmail b)) \<in> set (pendingKeys db) \<longrightarrow>
              snd (serve db now auth (PostRequests b)) = db \<and>
              (\<exists>n code. fst (serve db now auth (PostRequests b)) = Error n code) \<and>
              (requestable db auth b aid \<longrightarrow>
                 fst (serve db now auth (PostRequests b)) = Error 400 ''DUPLICATE_REQUEST''))"
proof (intro conjI allI impI)
  show "distinct (pendingKeys (run db calls))"
    using assms by (rule pending_run)
next
  fix r
  assume created: "fst (serve db now auth (PostRequests b)) = Json 201 (Request r)"
  then obtain decoded where "fst (createRequest db now decoded b) = Json 201 (Request r)"
    by (cases auth) (simp_all add: verifyToken_def sendError_def)
  from createRequest_created[OF this]
  show "available db (r_assetId r)" and "(r_assetId r, r_employeeEmail r) \<notin> set (pendingKeys db)"
    by simp_all
next
  assume dup: "nr_assetId b = Valid aid \<and> (aid, text_of (nr_employeeEmail b)) \<in> set (pendingKeys db)"
  then have refused: "snd (createRequest db now decoded b) = db \<and>
      (\<exists>n code. fst (createRequest db now decoded b) = Error n code)" for decoded
    by (intro createRequest_duplicate) simp_all
  show "snd (serve db now auth (PostRequests b)) = db"
    using refused by (cases auth) (simp_all add: verifyToken_def)
  show "\<exists>n code. fst (serve db now auth (PostRequests b)) = Error n code"
    using refused by (cases auth) (simp_all add: verifyToken_def sendError_def)
  show "fst (serve db now auth (PostRequests b)) = Error 400 ''DUPLICATE_REQUEST''"
    if "requestable db auth b aid"
    using createRequest_duplicate_code[OF that, of now] dup by simp
qed

theorem one_pending_request_witness:
  "distinct (pendingKeys office) \<and>
   nr_assetId bobAsks = Valid 10 \<and>
   (10, text_of (nr_employeeEmail bobAsks)) \<in> set (pendingKeys office) \<and>
   requestable office (Bearer (Some ''bob@mail.io'')) bobAsks 10 \<and>
   serve office 5 (Bearer (Some ''bob@mail.io'')) (PostRequests bobAsks) =
     (Error 400 ''DUPLICATE_REQUEST'', office) \<and>
   distinct (pendingKeys (run office
     [(5, Bearer (Some ''bob@mail.io''), PostRequests bobAsks),
      (6, Bearer (Some ''alice@acme.io''), PatchRequests (Valid 20) ''approved'' None),
      (7, Bearer (Some ''bob@mail.io''), PostRequests bobAsks)]))"
proof -
  have one: "distinct (pendingKeys office)"
    by (simp add: pendingKeys_def office_def laptopRequest_def)
  have asset: "nr_assetId bobAsks = Valid 10"
    by (simp add: bobAsks_def)
  have dup: "(10, text_of (nr_employeeEmail bobAsks)) \<in> set (pendingKeys office)"
    by (simp add: pendingKeys_def office_def laptopRequest_def bobAsks_def text_of_def)
  have "isValidEmail ''bob@mail.io''" "isValidEmail ''alice@acme.io''"
    by (simp_all add: isValidEmail_def plain_def whitespace_def)
  then have ok: "requestable office (Bearer (Some ''bob@mail.io'')) bobAsks 10"
    by (simp add: requestable_def available_def bobAsks_def office_def laptop_def truthy_def text_of_def)
  note t = one_pending_request[OF one, of
      "[(5, Bearer (Some ''bob@mail.io''), PostRequests bobAsks),
        (6, Bearer (Some ''alice@acme.io''), PatchRequests (Valid 20) ''approved'' None),
        (7, Bearer (Some ''bob@mail.io''), PostRequests bobAsks)]"
      5 "Bearer (Some ''bob@mail.io'')" bobAsks 10]
  from t have still: "distinct (pendingKeys (run office
     [(5, Bearer (Some ''bob@mail.io''), PostRequests bobAsks),
      (6, Bearer (Some ''alice@acme.io''), PatchRequests (Valid 20) ''approved'' None),
      (7, Bearer (Some ''bob@mail.io''), PostRequests bobAsks)]))"
    by (rule conjunct1)
  from t[THEN conjunct2, THEN conjunct2] asset dup ok
  have "fst (serve office 5 (Bearer (Some ''bob@mail.io'')) (PostRequests bobAsks)) =
          Error 400 ''DUPLICATE_REQUEST''"
    and "snd (serve office 5 (Bearer (Some ''bob@mail.io'')) (PostRequests bobAsks)) = office"
    by blast+
  then have refused: "serve office 5 (Bearer (Some ''bob@mail.io'')) (PostRequests bobAsks) =
         (Error 400 ''DUPLICATE_REQUEST'', office)"
    by (intro prod_eqI) (simp_all only: fst_conv snd_conv)
  from one asset dup ok refused still show ?thesis by blast
qed

subsection \<open>The quantity of an asset\<close>

lemma valid_emails:
  "isValidEmail ''alice@acme.io''" "isValidEmail ''bob@mail.io''"
  by (simp_all add: isValidEmail_def plain_def whitespace_def)

lemma trimmed:
  "sanitize ''Alice'' = ''Alice''" "sanitize ''Bob'' = ''Bob''" "sanitize ''Acme'' = ''Acme''"
  "sanitize ''Cable'' = ''Cable''" "sanitize ''alice@acme.io'' = ''alice@acme.io''"
  "sanitize ''bob@mail.io'' = ''bob@mail.io''" "sanitize [] = []"
  by (simp_all add: sanitize_def whitespace_def)

text \<open>
  Claim C1 asks that \<open>0 \<le> availableQuantity \<le> productQuantity\<close> holds of every asset
  after every history. POST /assets accepts any finite quantity above zero, whole or
  not, and the guard of an approval is \<open>availableQuantity <= 0\<close>: an asset created with
  one half is approved once and ends with \<open>availableQuantity\<close> minus one half.
\<close>

theorem half_an_asset_goes_negative:
  "map (\<lambda>a. (a_productQuantity a, a_availableQuantity a))
     (assetsCollection (run emptyStore halfHistory)) = [(1 / 2, - (1 / 2))] \<and>
   map r_status (requestsCollection (run emptyStore halfHistory)) = [''approved''] \<and>
   map g_status (assetAssignmentsCollection (run emptyStore halfHistory)) = [''assigned'']"
  by (simp add: halfHistory_def emptyStore_def aliceSignsUp_def bobSignsUp_def halfACable_def
      bobAsksForCable_def createUser_def insertUser_def createAsset_def createRequest_def
      approve_defs valid_emails trimmed text_of_def or_else_def first_truthy_def)

subsection \<open>Whole quantities\<close>

text \<open>
  With whole quantities the stock adds up. The lemmas of this section show that a sound
  store stays sound under every call whose quantity, if it sets one, is whole; the
  available quantity of an asset is then its total minus the number of its assignments
  in status assigned.
\<close>

lemma whole_Ints: "whole q = (q \<in> \<int>)"
  unfolding whole_def of_int_floor_cancel Ints_def by auto

lemma whole_minus_count: "whole q \<Longrightarrow> whole (q - of_nat n)"
  by (simp add: whole_Ints)

lemma whole_positive: "whole q \<Longrightarrow> 0 < q \<Longrightarrow> 1 \<le> q"
  unfolding whole_Ints by (elim Ints_cases) simp

lemma map_other_keys:
  assumes "k \<notin> key ` set xs"
  shows "map (\<lambda>x. if key x = k then f x else x) xs = xs"
  using assms by (induction xs) auto

lemma updateOne_map:
  assumes "distinct (map key xs)"
  shows "updateOne (\<lambda>x. key x = k) f xs = map (\<lambda>x. if key x = k then f x else x) xs"
  using assms
proof (induction xs)
  case Nil
  then show ?case by simp
next
  case (Cons x xs)
  show ?case
  proof (cases "key x = k")
    case True
    with Cons.prems have "k \<notin> key ` set xs" by simp
    then show ?thesis using True by (simp add: map_other_keys)
  next
    case False
    with Cons show ?thesis by simp
  qed
qed

lemma find_key:
  assumes "distinct (map key xs)"
  shows "(find (\<lambda>x. key x = k) xs = Some x) = (x \<in> set xs \<and> key x = k)"
  using assms
proof (induction xs)
  case Nil
  then show ?case by simp
next
  case (Cons y xs)
  then have "key y \<notin> key ` set xs" by simp
  then have "z \<in> set xs \<Longrightarrow> key z \<noteq> key y" for z by (metis imageI)
  with Cons show ?case by auto
qed

lemma find_key_None: "(find (\<lambda>x. key x = k) xs = None) = (k \<notin> key ` set xs)"
  by (induction xs) auto

lemma set_deleteOne: "set (deleteOne p xs) \<subseteq> set xs"
  by (induction xs) auto

lemma distinct_deleteOne: "distinct (map key xs) \<Longrightarrow> distinct (map key (deleteOne p xs))"
proof (induction xs)
  case (Cons x xs)
  then show ?case using set_deleteOne[of p xs] by auto
qed simp

lemma list_all_updateOne:
  assumes "list_all P xs" and "\<And>x. x \<in> set xs \<Longrightarrow> P (f x)"
  shows "list_all P (updateOne q f xs)"
  using assms by (induction xs) auto

lemma count_changed:
  assumes "distinct (map key gs)" and "g \<in> set gs" and "P g" and "\<not> P (mark g)"
  shows "Suc (length (filter P (map (\<lambda>x. if key x = key g then mark x else x) gs))) =
         length (filter P gs)"
  using assms(1,2)
proof (induction gs)
  case Nil
  then show ?case by simp
next
  case (Cons x gs)
  show ?case
  proof (cases "x = g")
    case True
    with Cons.prems have "key g \<notin> key ` set gs" by simp
    then have "map (\<lambda>x. if key x = key g then mark x else x) gs = gs"
      by (rule map_other_keys)
    with True show ?thesis using assms(3,4) by simp
  next
    case False
    with Cons.prems have g: "g \<in> set gs" and d: "distinct (map key gs)" and "key x \<notin> key ` set gs"
      by auto
    with g have "key x \<noteq> key g" by (metis imageI)
    with Cons.IH[OF d g] show ?thesis by simp
  qed
qed

lemma count_unchanged:
  assumes "\<And>x. x \<in> set gs \<Longrightarrow> P (h x) = P x"
  shows "length (filter P (map h gs)) = length (filter P gs)"
  using assms by (induction gs) auto

lemma map_key_updateOne:
  assumes "\<And>x. key (f x) = key x"
  shows "map key (updateOne p f xs) = map key xs"
  using assms by (induction xs) auto

lemma set_updateOne: "set (updateOne p f xs) \<subseteq> set xs \<union> f ` set xs"
  by (induction xs) auto

lemma updateOne_found:
  assumes "find p xs = Some x" and "f x = h x"
  shows "updateOne p f xs = updateOne p h xs"
  using assms by (induction xs) (auto split: if_splits)

lemma sound_stock:
  assumes "sound db" and "a \<in> set (assetsCollection db)"
  shows "0 \<le> a_availableQuantity a \<and> a_availableQuantity a \<le> a_productQuantity a \<and>
         whole (a_availableQuantity a)"
proof -
  from assms have s: "inStock db a" by (simp add: sound_def list_all_iff)
  then have "a_availableQuantity a = a_productQuantity a - of_nat (assignedCount db (a_id a))"
    by (simp add: inStock_def)
  moreover from s have "whole (a_productQuantity a)" by (simp add: inStock_def)
  ultimately have "whole (a_availableQuantity a)" by (simp add: whole_minus_count)
  moreover from s have "a_availableQuantity a \<le> a_productQuantity a"
    unfolding inStock_def by linarith
  ultimately show ?thesis using s by (simp add: inStock_def)
qed

lemma sound_frame:
  assumes "sound db"
    and "assetsCollection db' = assetsCollection db"
    and "assetAssignmentsCollection db' = assetAssignmentsCollection db"
    and "nextId db \<le> nextId db'"
  shows "sound db'"
  using assms by (auto simp: sound_def inStock_def assignedCount_def list_all_iff)

lemma sound_take:
  assumes inv: "sound db"
    and found: "find (\<lambda>a. a_id a = k) (assetsCollection db) = Some asset"
    and some: "0 < a_availableQuantity asset"
    and assets: "assetsCollection db' = updateOne (\<lambda>a. a_id a = k) f (assetsCollection db)"
    and f: "\<And>a. a_id (f a) = a_id a" "\<And>a. a_productQuantity (f a) = a_productQuantity a"
      "\<And>a. a_availableQuantity (f a) = a_availableQuantity asset - 1"
    and assignments: "assetAssignmentsCollection db' = assetAssignmentsCollection db @ [g]"
    and g: "g_id g = nextId db" "g_assetId g = k" "g_status g = ''assigned''"
    and counter: "nextId db' = Suc (nextId db)"
  shows "sound db'"
proof -
  from inv have d: "distinct (map a_id (assetsCollection db))" by (simp add: sound_def)
  from found d have asset: "asset \<in> set (assetsCollection db)" "a_id asset = k"
    by (simp_all add: find_key)
  have A: "assetsCollection db' = map (\<lambda>a. if a_id a = k then f a else a) (assetsCollection db)"
    unfolding assets using d by (rule updateOne_map)
  have count: "assignedCount db' j = assignedCount db j + (if j = k then 1 else 0)" for j
    by (auto simp: assignedCount_def assignments g)
  from inv asset have bound: "k < nextId db" by (auto simp: sound_def list_all_iff)
  have stock: "inStock db' a'" if "a' \<in> set (assetsCollection db')" for a'
  proof -
    from that A obtain a where a: "a \<in> set (assetsCollection db)"
      and a': "a' = (if a_id a = k then f a else a)" by auto
    from inv a have sa: "inStock db a" by (simp add: sound_def list_all_iff)
    show ?thesis
    proof (cases "a_id a = k")
      case True
      with a asset d have "a = asset" by (metis find_key found option.inject)
      moreover from sound_stock[OF inv asset(1)] some have "1 \<le> a_availableQuantity asset"
        by (simp add: whole_positive)
      ultimately show ?thesis using sa a' True by (simp add: inStock_def count f)
    next
      case False
      with sa a' show ?thesis by (simp add: inStock_def count)
    qed
  qed
  have "distinct (map a_id (assetsCollection db'))"
    unfolding assets using d by (simp add: map_key_updateOne f)
  moreover have "distinct (map g_id (assetAssignmentsCollection db'))"
    using inv by (auto simp: assignments g sound_def list_all_iff)
  moreover have "list_all (\<lambda>a. a_id a < nextId db') (assetsCollection db')"
    using inv by (auto simp: A counter f sound_def list_all_iff)
  moreover have "list_all (\<lambda>g. g_id g < nextId db' \<and> g_assetId g < nextId db')
      (assetAssignmentsCollection db')"
    using inv bound by (auto simp: assignments g counter sound_def list_all_iff)
  ultimately show ?thesis using stock by (simp add: sound_def list_all_iff)
qed

lemma sound_give:
  assumes inv: "sound db"
    and held: "g \<in> set (assetAssignmentsCollection db)" "g_status g = ''assigned''"
    and assignments: "assetAssignmentsCollection db' =
        updateOne (\<lambda>x. g_id x = g_id g) mark (assetAssignmentsCollection db)"
    and mark: "\<And>x. g_id (mark x) = g_id x" "\<And>x. g_assetId (mark x) = g_assetId x"
      "\<And>x. g_status (mark x) \<noteq> ''assigned''"
    and assets: "assetsCollection db' =
        updateOne (\<lambda>a. a_id a = g_assetId g) inc (assetsCollection db)"
    and inc: "\<And>a. a_id (inc a) = a_id a" "\<And>a. a_productQuantity (inc a) = a_productQuantity a"
      "\<And>a. a_availableQuantity (inc a) = a_availableQuantity a + 1"
    and counter: "nextId db' = nextId db"
  shows "sound db'"
proof -
  let ?k = "g_assetId g"
  from inv have d: "distinct (map a_id (assetsCollection db))"
    and dg: "distinct (map g_id (assetAssignmentsCollection db))" by (simp_all add: sound_def)
  have A: "assetsCollection db' = map (\<lambda>a. if a_id a = ?k then inc a else a) (assetsCollection db)"
    unfolding assets using d by (rule updateOne_map)
  have G: "assetAssignmentsCollection db' =
      map (\<lambda>x. if g_id x = g_id g then mark x else x) (assetAssignmentsCollection db)"
    unfolding assignments using dg by (rule updateOne_map)
  have only: "x = g" if "x \<in> set (assetAssignmentsCollection db)" "g_id x = g_id g" for x
    using dg that held(1) by (auto simp: distinct_map dest: inj_onD)
  have same: "assignedCount db' j = assignedCount db j" if "j \<noteq> ?k" for j
    unfolding assignedCount_def G
    by (rule count_unchanged) (use that mark only in auto)
  have less: "Suc (assignedCount db' ?k) = assignedCount db ?k"
    unfolding assignedCount_def G
    by (rule count_changed[OF dg held(1)]) (simp_all add: held mark)
  have stock: "inStock db' a'" if "a' \<in> set (assetsCollection db')" for a'
  proof -
    from that A obtain a where a: "a \<in> set (assetsCollection db)"
      and a': "a' = (if a_id a = ?k then inc a else a)" by auto
    from inv a have sa: "inStock db a" by (simp add: sound_def list_all_iff)
    show ?thesis
    proof (cases "a_id a = ?k")
      case True
      have "of_nat (assignedCount db ?k) = (of_nat (assignedCount db' ?k) + 1 :: rat)"
        unfolding less[symmetric] by simp
      with sa a' True show ?thesis by (simp add: inStock_def inc)
    next
      case False
      with sa a' show ?thesis by (simp add: inStock_def same)
    qed
  qed
  have "distinct (map a_id (assetsCollection db'))"
    unfolding assets using d by (simp add: map_key_updateOne inc)
  moreover have "distinct (map g_id (assetAssignmentsCollection db'))"
    unfolding assignments using dg by (simp add: map_key_updateOne mark)
  moreover have "list_all (\<lambda>a. a_id a < nextId db') (assetsCollection db')"
    using inv by (auto simp: A counter inc sound_def list_all_iff)
  moreover have "list_all (\<lambda>g. g_id g < nextId db' \<and> g_assetId g < nextId db')
      (assetAssignmentsCollection db')"
    using inv by (auto simp: G counter mark sound_def list_all_iff)
  ultimately show ?thesis using stock by (simp add: sound_def list_all_iff)
qed

lemma sound_create:
  assumes inv: "sound db"
    and a: "a_id a = nextId db" "whole (a_productQuantity a)" "0 \<le> a_productQuantity a"
      "a_availableQuantity a = a_productQuantity a"
  shows "sound (db\<lparr> assetsCollection := assetsCollection db @ [a], nextId := Suc (nextId db) \<rparr>)"
proof -
  have "filter (\<lambda>g. g_assetId g = nextId db \<and> g_status g = ''assigned'')
          (assetAssignmentsCollection db) = []"
    using inv by (auto simp: sound_def list_all_iff filter_empty_conv)
  then have "inStock (db\<lparr> assetsCollection := assetsCollection db @ [a], nextId := Suc (nextId db) \<rparr>) a"
    using a by (simp add: inStock_def assignedCount_def)
  then show ?thesis
    using inv a(1) by (auto simp: sound_def inStock_def assignedCount_def list_all_iff)
qed

lemma sound_restock:
  assumes inv: "sound db"
    and found: "find (\<lambda>a. a_id a = k) (assetsCollection db) = Some asset"
    and q: "whole q" "\<not> q < of_nat (assignedCount db k)"
    and h: "\<And>a. a_id (h a) = a_id a" "\<And>a. a_productQuantity (h a) = q"
      "\<And>a. a_availableQuantity (h a) =
            max 0 (a_availableQuantity asset + (q - a_productQuantity asset))"
  shows "sound (db\<lparr> assetsCollection := updateOne (\<lambda>a. a_id a = k) h (assetsCollection db) \<rparr>)"
proof -
  let ?db = "db\<lparr> assetsCollection := updateOne (\<lambda>a. a_id a = k) h (assetsCollection db) \<rparr>"
  from inv have d: "distinct (map a_id (assetsCollection db))" by (simp add: sound_def)
  from found d have asset: "asset \<in> set (assetsCollection db)" "a_id asset = k"
    by (simp_all add: find_key)
  have A: "assetsCollection ?db = map (\<lambda>a. if a_id a = k then h a else a) (assetsCollection db)"
    using d by (simp add: updateOne_map)
  have stock: "inStock ?db a'" if "a' \<in> set (assetsCollection ?db)" for a'
  proof -
    from that A obtain a where a: "a \<in> set (assetsCollection db)"
      and a': "a' = (if a_id a = k then h a else a)" by auto
    from inv a have sa: "inStock db a" by (simp add: sound_def list_all_iff)
    show ?thesis
    proof (cases "a_id a = k")
      case True
      with a asset d have "a = asset" by (metis find_key found option.inject)
      with sa have "a_availableQuantity asset + (q - a_productQuantity asset) =
                    q - of_nat (assignedCount db k)"
        using asset(2) by (simp add: inStock_def)
      with q(2) a' True show ?thesis
        by (simp add: inStock_def assignedCount_def h q(1))
    next
      case False
      with sa a' show ?thesis by (simp add: inStock_def assignedCount_def)
    qed
  qed
  have "distinct (map a_id (assetsCollection ?db))"
    using d by (simp add: map_key_updateOne h)
  moreover have "list_all (\<lambda>a. a_id a < nextId ?db) (assetsCollection ?db)"
    using inv by (auto simp: A h sound_def list_all_iff)
  ultimately show ?thesis using inv stock by (simp add: sound_def list_all_iff)
qed

lemma sound_rename:
  assumes inv: "sound db"
    and h: "\<And>a. a_id (h a) = a_id a" "\<And>a. a_productQuantity (h a) = a_productQuantity a"
      "\<And>a. a_availableQuantity (h a) = a_availableQuantity a"
  shows "sound (db\<lparr> assetsCollection := updateOne p h (assetsCollection db) \<rparr>)"
proof -
  let ?db = "db\<lparr> assetsCollection := updateOne p h (assetsCollection db) \<rparr>"
  have "inStock ?db a'" if "a' \<in> set (assetsCollection ?db)" for a'
  proof -
    from that set_updateOne[of p h "assetsCollection db"]
    consider "a' \<in> set (assetsCollection db)" | a where "a \<in> set (assetsCollection db)" "a' = h a"
      by auto
    then show ?thesis
      using inv by cases (auto simp: sound_def list_all_iff inStock_def assignedCount_def h)
  qed
  moreover have "list_all (\<lambda>a. a_id a < nextId ?db) (assetsCollection ?db)"
    using inv set_updateOne[of p h "assetsCollection db"]
    by (auto simp: h sound_def list_all_iff)
  ultimately show ?thesis using inv by (simp add: sound_def list_all_iff map_key_updateOne h)
qed

lemma sound_delete:
  assumes inv: "sound db"
  shows "sound (db\<lparr> assetsCollection := deleteOne p (assetsCollection db) \<rparr>)"
  using inv set_deleteOne[of p "assetsCollection db"]
  by (auto simp: sound_def list_all_iff inStock_def assignedCount_def distinct_deleteOne)

lemma sound_approval:
  assumes inv: "sound db"
    and found: "find (\<lambda>a. a_id a = k) (assetsCollection db) = Some asset"
    and some: "\<not> a_availableQuantity asset \<le> 0"
    and f: "\<And>a. a_id (f a) = a_id a" "\<And>a. a_productQuantity (f a) = a_productQuantity a"
      "\<And>a. a_availableQuantity (f a) = a_availableQuantity asset - 1"
    and g: "g_id g = nextId db" "g_assetId g = k" "g_status g = ''assigned''"
  shows "sound (db\<lparr> assetAssignmentsCollection := assetAssignmentsCollection db @ [g],
                    assetsCollection := updateOne (\<lambda>a. a_id a = k) f (assetsCollection db),
                    requestsCollection := rs,
                    nextId := Suc (nextId db) \<rparr>)"
  by (rule sound_take[OF inv found _ _ f _ g]) (use some in simp_all)

lemma sound_assignment:
  assumes inv: "sound db"
    and found: "find (\<lambda>a. a_id a = k) (assetsCollection db) = Some asset"
    and some: "\<not> a_availableQuantity asset \<le> 0"
    and f: "\<And>a. a_id (f a) = a_id a" "\<And>a. a_productQuantity (f a) = a_productQuantity a"
      "\<And>a. a_availableQuantity (f a) = a_availableQuantity asset - 1"
    and g: "g_id g = nextId db" "g_assetId g = k" "g_status g = ''assigned''"
  shows "sound (db\<lparr> assetAssignmentsCollection := assetAssignmentsCollection db @ [g],
                    assetsCollection := updateOne (\<lambda>a. a_id a = k) f (assetsCollection db),
                    nextId := Suc (nextId db) \<rparr>)"
  by (rule sound_take[OF inv found _ _ f _ g]) (use some in simp_all)

lemma sound_return:
  assumes inv: "sound db"
    and held: "find (\<lambda>x. g_id x = gid) (assetAssignmentsCollection db) = Some g"
      "\<not> g_status g \<noteq> ''assigned''"
    and found: "find (\<lambda>a. a_id a = g_assetId g) (assetsCollection db) = Some asset"
    and f: "\<And>a. a_id (f a) = a_id a" "\<And>a. a_productQuantity (f a) = a_productQuantity a"
      "\<And>a. a_availableQuantity (f a) = a_availableQuantity asset + 1"
    and mark: "\<And>x. g_id (mark x) = g_id x" "\<And>x. g_assetId (mark x) = g_assetId x"
      "\<And>x. g_status (mark x) \<noteq> ''assigned''"
  shows "sound (db\<lparr> assetsCollection := updateOne (\<lambda>a. a_id a = g_assetId g) f (assetsCollection db),
                    assetAssignmentsCollection :=
                      updateOne (\<lambda>x. g_id x = gid) mark (assetAssignmentsCollection db) \<rparr>)"
proof -
  from inv have dg: "distinct (map g_id (assetAssignmentsCollection db))" by (simp add: sound_def)
  with held have g: "g \<in> set (assetAssignmentsCollection db)" "g_id g = gid" "g_status g = ''assigned''"
    by (simp_all add: find_key)
  let ?inc = "\<lambda>a. (f a)\<lparr> a_availableQuantity := a_availableQuantity a + 1 \<rparr>"
  have "f asset = ?inc asset" using f(3)[of asset] by (cases "f asset") simp
  with found have "updateOne (\<lambda>a. a_id a = g_assetId g) f (assetsCollection db) =
                   updateOne (\<lambda>a. a_id a = g_assetId g) ?inc (assetsCollection db)"
    by (rule updateOne_found)
  then show ?thesis
    by (intro sound_give[OF inv g(1,3), where mark = mark and inc = ?inc])
       (simp_all add: g mark f)
qed

lemma sound_returned:
  assumes inv: "sound db"
    and held: "g \<in> set (assetAssignmentsCollection db)" "g_status g = ''assigned''"
    and mark: "\<And>x. g_id (mark x) = g_id x" "\<And>x. g_assetId (mark x) = g_assetId x"
      "\<And>x. g_status (mark x) \<noteq> ''assigned''"
    and inc: "\<And>a. a_id (inc a) = a_id a" "\<And>a. a_productQuantity (inc a) = a_productQuantity a"
      "\<And>a. a_availableQuantity (inc a) = a_availableQuantity a + 1"
  shows "sound (db\<lparr> assetAssignmentsCollection :=
                      updateOne (\<lambda>x. g_id x = g_id g) mark (assetAssignmentsCollection db),
                    assetsCollection :=
                      updateOne (\<lambda>a. a_id a = g_assetId g) inc (assetsCollection db) \<rparr>)"
  by (intro sound_give[OF inv held, where mark = mark and inc = inc]) (simp_all add: mark inc)

lemma sound_if:
  "(c \<Longrightarrow> sound (snd a)) \<Longrightarrow> (\<not> c \<Longrightarrow> sound (snd x)) \<Longrightarrow> sound (snd (if c then a else x))"
  by simp

lemma sound_if_store:
  "(c \<Longrightarrow> sound a) \<Longrightarrow> (\<not> c \<Longrightarrow> sound x) \<Longrightarrow> sound (if c then a else x)"
  by simp

lemma sound_option:
  "(opt = None \<Longrightarrow> sound (snd a)) \<Longrightarrow> (\<And>x. opt = Some x \<Longrightarrow> sound (snd (f x))) \<Longrightarrow>
   sound (snd (case opt of None \<Rightarrow> a | Some x \<Rightarrow> f x))"
  by (cases opt) simp_all

lemma sound_sum:
  "(\<And>e. s = Inl e \<Longrightarrow> sound (snd (f e))) \<Longrightarrow> (\<And>x. s = Inr x \<Longrightarrow> sound (snd (h x))) \<Longrightarrow>
   sound (snd (case s of Inl e \<Rightarrow> f e | Inr x \<Rightarrow> h x))"
  by (cases s) simp_all

lemma sound_id_text:
  "(t = Missing \<Longrightarrow> sound (snd a)) \<Longrightarrow> (t = Invalid \<Longrightarrow> sound (snd b)) \<Longrightarrow>
   (\<And>i. t = Valid i \<Longrightarrow> sound (snd (f i))) \<Longrightarrow>
   sound (snd (case t of Missing \<Rightarrow> a | Invalid \<Rightarrow> b | Valid i \<Rightarrow> f i))"
  by (cases t) simp_all

lemma sound_pair: "sound db \<Longrightarrow> sound (snd (r, db))"
  by simp

lemmas sound_branches = sound_if sound_option sound_sum sound_id_text sound_pair

lemma sound_users_added:
  "sound db \<Longrightarrow> sound (db\<lparr> usersCollection := us, nextId := Suc (nextId db) \<rparr>)"
  by (rule sound_frame[of db]) simp_all

lemma sound_users:
  "sound db \<Longrightarrow> sound (db\<lparr> usersCollection := us \<rparr>)"
  by (rule sound_frame[of db]) simp_all

lemma sound_requests_added:
  "sound db \<Longrightarrow> sound (db\<lparr> requestsCollection := rs, nextId := Suc (nextId db) \<rparr>)"
  by (rule sound_frame[of db]) simp_all

lemma sound_requests:
  "sound db \<Longrightarrow> sound (db\<lparr> requestsCollection := rs \<rparr>)"
  by (rule sound_frame[of db]) simp_all

lemma sound_affiliations:
  "sound db \<Longrightarrow> sound (db\<lparr> affiliationsCollection := fs \<rparr>)"
  by (rule sound_frame[of db]) simp_all

lemma createUser_sound:
  assumes inv: "sound db"
  shows "sound (snd (createUser db now b))"
  unfolding createUser_def Let_def
  by (intro sound_branches sound_users_added inv)

lemma updateUser_sound:
  assumes inv: "sound db"
  shows "sound (snd (updateUser db now decoded email b))"
  unfolding updateUser_def Let_def
  by (intro sound_branches sound_users inv)

lemma createRequest_sound:
  assumes inv: "sound db"
  shows "sound (snd (createRequest db now decoded b))"
  unfolding createRequest_def Let_def
  by (intro sound_branches sound_requests_added inv)

lemma createAsset_sound:
  assumes inv: "sound db" and w: "whole (or_zero (na_productQuantity b))"
  shows "sound (snd (createAsset db now decoded b))"
  unfolding createAsset_def Let_def
  by (intro sound_branches inv sound_create[OF inv]) (simp_all add: w)

lemma updateAsset_sound:
  assumes inv: "sound db" and w: "whole (or_zero (au_productQuantity b))"
  shows "sound (snd (updateAsset db now assetId b))"
  unfolding updateAsset_def writeAsset_def Let_def
  apply (intro sound_branches inv)
     apply (rule sound_restock[OF inv]; simp add: w renameAsset_def)
    apply (rule sound_restock[OF inv]; simp add: w renameAsset_def)
   apply (rule sound_rename[OF inv]; simp add: renameAsset_def)
  apply (rule sound_rename[OF inv]; simp add: renameAsset_def)
  done

lemma deleteAsset_sound:
  assumes inv: "sound db"
  shows "sound (snd (deleteAsset db assetId))"
  unfolding deleteAsset_def
  by (intro sound_branches inv sound_delete[OF inv])

lemma ensureAffiliation_frame:
  assumes "ensureAffiliation db now request hrUser = Inr db1"
  shows "assetsCollection db1 = assetsCollection db \<and>
         assetAssignmentsCollection db1 = assetAssignmentsCollection db \<and>
         nextId db \<le> nextId db1"
  using assms by (auto simp: ensureAffiliation_def Let_def split: option.splits if_splits)

lemma recordApproval_sound:
  assumes inv: "sound db1"
    and found: "find (\<lambda>a. a_id a = r_assetId request) (assetsCollection db1) = Some asset"
    and some: "\<not> a_availableQuantity asset \<le> 0"
  shows "sound (snd (recordApproval db1 now rid request asset))"
  unfolding recordApproval_def Let_def
  by (intro sound_branches sound_approval[OF inv found some]) simp_all

lemma approveRequest_sound:
  assumes inv: "sound db"
  shows "sound (snd (approveRequest db now rid request))"
  unfolding approveRequest_def
proof (intro sound_branches inv)
  fix asset hrUser db1
  assume found: "find (\<lambda>a. a_id a = r_assetId request) (assetsCollection db) = Some asset"
    and some: "\<not> a_availableQuantity asset \<le> 0"
    and aff: "ensureAffiliation db now request hrUser = Inr db1"
  note fr = ensureAffiliation_frame[OF aff]
  have "sound db1" by (rule sound_frame[OF inv]) (simp_all add: fr)
  moreover have "find (\<lambda>a. a_id a = r_assetId request) (assetsCollection db1) = Some asset"
    using found fr by simp
  ultimately show "sound (snd (recordApproval db1 now rid request asset))"
    using some by (rule recordApproval_sound)
qed

lemma rejectRequest_sound:
  assumes inv: "sound db"
  shows "sound (snd (rejectRequest db now rid reason))"
  unfolding rejectRequest_def Let_def
  by (intro sound_branches sound_requests inv)

lemma updateRequestStatus_sound:
  assumes inv: "sound db"
  shows "sound (snd (updateRequestStatus db now requestId status reason))"
  unfolding updateRequestStatus_def
  by (intro sound_branches inv approveRequest_sound rejectRequest_sound)

lemma returnAsset_sound:
  assumes inv: "sound db"
  shows "sound (snd (returnAsset db now decoded assignmentId employeeEmail))"
  unfolding returnAsset_def Let_def
  by (intro sound_branches inv sound_return[OF inv]; simp)

lemma assignAsset_sound:
  assumes inv: "sound db"
  shows "sound (snd (assignAsset db now b))"
  unfolding assignAsset_def Let_def
  by (intro sound_branches inv sound_assignment[OF inv]; simp)

lemma returnAll_sound:
  assumes "sound db" and "set gs \<subseteq> set (assetAssignmentsCollection db)"
    and "\<forall>g \<in> set gs. g_status g = ''assigned''" and "distinct (map g_id gs)"
  shows "sound (returnAll now gs db)"
  using assms
proof (induction gs arbitrary: db)
  case Nil
  then show ?case by simp
next
  case (Cons g gs)
  let ?mark = "\<lambda>x. x\<lparr> g_status := ''returned'', g_returnDate := Some now, g_updatedAt := now \<rparr>"
  let ?db = "db\<lparr> assetAssignmentsCollection :=
                    updateOne (\<lambda>x. g_id x = g_id g) ?mark (assetAssignmentsCollection db),
                  assetsCollection :=
                    updateOne (\<lambda>a. a_id a = g_assetId g)
                      (\<lambda>a. a\<lparr> a_availableQuantity := a_availableQuantity a + 1, a_updatedAt := now \<rparr>)
                      (assetsCollection db) \<rparr>"
  from Cons.prems have held: "g \<in> set (assetAssignmentsCollection db)" "g_status g = ''assigned''"
    by simp_all
  have s: "sound ?db"
    by (rule sound_returned[OF Cons.prems(1) held]) simp_all
  from Cons.prems(1) have dg: "distinct (map g_id (assetAssignmentsCollection db))"
    by (simp add: sound_def)
  have G: "assetAssignmentsCollection ?db =
      map (\<lambda>x. if g_id x = g_id g then ?mark x else x) (assetAssignmentsCollection db)"
    using dg by (simp add: updateOne_map)
  have "set gs \<subseteq> set (assetAssignmentsCollection ?db)"
  proof
    fix x assume x: "x \<in> set gs"
    with Cons.prems(4) have "g_id x \<noteq> g_id g" by (auto simp: image_iff)
    moreover from x Cons.prems(2) have "x \<in> set (assetAssignmentsCollection db)" by auto
    ultimately show "x \<in> set (assetAssignmentsCollection ?db)"
      unfolding G by (auto simp: image_iff intro!: bexI[of _ x])
  qed
  with Cons.prems have "sound (returnAll now gs ?db)"
    by (intro Cons.IH s) simp_all
  then show ?case by simp
qed

lemma removeAffiliation_sound:
  assumes inv: "sound db"
  shows "sound (snd (removeAffiliation db now employeeEmail companyName))"
proof -
  have s: "sound (returnAll now
      (filter (\<lambda>g. g_employeeEmail g = sanitize (text_of employeeEmail) \<and>
                   g_companyName g = sanitize (text_of companyName) \<and>
                   g_status g = ''assigned'') (assetAssignmentsCollection db)) db)"
    using inv by (intro returnAll_sound) (auto simp: sound_def distinct_map_filter)
  show ?thesis
    unfolding removeAffiliation_def Let_def
    by (intro sound_branches sound_if_store sound_users sound_affiliations inv s)
qed

lemma sound_step:
  assumes inv: "sound db" and w: "wholeCall (now, auth, c)"
  shows "sound (snd (serve db now auth c))"
proof (rule serve_snd[where P = sound])
  fix decoded b
  assume "c = PostAssets b"
  with w show "sound (snd (createAsset db now decoded b))"
    by (intro createAsset_sound inv) simp
next
  fix assetId b
  assume "c = PutAssets assetId b"
  with w show "sound (snd (updateAsset db now assetId b))"
    by (intro updateAsset_sound inv) simp
qed (intro inv createUser_sound updateUser_sound deleteAsset_sound createRequest_sound
      updateRequestStatus_sound returnAsset_sound removeAffiliation_sound assignAsset_sound)+

lemma sound_run:
  assumes "sound db" and "list_all wholeCall calls"
  shows "sound (run db calls)"
  using assms
proof (induction calls arbitrary: db)
  case Nil
  then show ?case by simp
next
  case (Cons c calls)
  obtain now auth k where c: "c = (now, auth, k)" by (cases c)
  from Cons.prems have "sound (snd (serve db now auth k))"
    unfolding c by (intro sound_step) simp_all
  with Cons.prems show ?case unfolding c run.simps by (intro Cons.IH) simp_all
qed

lemma sound_emptyStore: "sound emptyStore"
  by (simp add: sound_def emptyStore_def)

text \<open>
  The invariant of claim C1 for whole quantities: from a sound store (the empty store is
  one), after any sequence of calls that set whole quantities only, every asset has
  \<open>0 \<le> availableQuantity \<le> productQuantity\<close>.
\<close>

lemma whole_quantities_stay_in_stock:
  assumes "sound db" and "list_all wholeCall calls"
  shows "list_all (\<lambda>a. 0 \<le> a_availableQuantity a \<and> a_availableQuantity a \<le> a_productQuantity a)
           (assetsCollection (run db calls))"
  using sound_stock[OF sound_run[OF assms]] by (simp add: list_all_iff)

end
